theory Spec2Isabelle
  imports Complex_Main
begin

section \<open>Data model: cells, rows, tables, errors\<close>

text \<open>
  A pandas cell is a missing value (NaN / NaT), a string, an integer, a float or a
  timestamp (a calendar date at midnight, as \<open>read_csv(parse_dates=...)\<close> produces for
  the members table).  Arithmetic on floats is exact (rationals): IEEE rounding is not
  part of the model.
\<close>

datatype cell = VNull | VStr string | VInt int | VFlt rat | VDate int int int

text \<open>
  A row gives the cell of every column name; only the values at the columns of the
  table it belongs to are meaningful.  A table is the ordered list of its column names
  and the ordered list of its rows.
\<close>

type_synonym row = "string \<Rightarrow> cell"

record table =
  columns :: "string list"
  rows :: "row list"

text \<open>
  The exceptions of the program.  The three assertion sites of the source raise Python's
  \<open>AssertionError\<close>; they are kept apart by the site that raises them:
  \<open>StageOrderError\<close> is the assertion at the head of a stage method of
  \<open>FeatureProcessor\<close>, \<open>DispatchError\<close> the two assertions of
  \<open>DataProcessor.process\<close>, \<open>DataIntegrityError\<close> the null check that ends a
  \<open>parse\<close> method.  \<open>KeyError\<close> carries the column names that were not found.
\<close>

datatype error =
    StageOrderError
  | DispatchError
  | DataIntegrityError
  | KeyError "string list"
  | TypeError
  | ValueError
  | AttributeError
  | DataError
  | FileNotFoundError

definition bindE :: "error + 'a \<Rightarrow> ('a \<Rightarrow> error + 'b) \<Rightarrow> error + 'b" where
  "bindE m f = (case m of Inl e \<Rightarrow> Inl e | Inr x \<Rightarrow> f x)"

fun mapE :: "('a \<Rightarrow> error + 'b) \<Rightarrow> 'a list \<Rightarrow> error + 'b list" where
  "mapE f [] = Inr []"
| "mapE f (x # xs) =
     (case f x of
        Inl e \<Rightarrow> Inl e
      | Inr y \<Rightarrow> (case mapE f xs of Inl e \<Rightarrow> Inl e | Inr ys \<Rightarrow> Inr (y # ys)))"

section \<open>The pandas operations the program uses\<close>

text \<open>\<open>df[cs]\<close>: every requested column must exist, else \<open>KeyError\<close> with the missing names.\<close>

definition require_cols :: "string list \<Rightarrow> table \<Rightarrow> error + unit" where
  "require_cols cs t =
     (let missing = filter (\<lambda>c. c \<notin> set (columns t)) cs
      in if missing = [] then Inr () else Inl (KeyError missing))"

text \<open>\<open>df[c].fillna(v, inplace=True)\<close>\<close>

definition fillna :: "string \<Rightarrow> cell \<Rightarrow> table \<Rightarrow> error + table" where
  "fillna c v t =
     bindE (require_cols [c] t)
       (\<lambda>_. Inr (t\<lparr>rows := map (\<lambda>r. if r c = VNull then r(c := v) else r) (rows t)\<rparr>))"

text \<open>
  \<open>df[c] = ...\<close>: an existing column is overwritten in place, a new one is appended.
  The new value of each row is computed from the row and may raise.
\<close>

definition add_col :: "string \<Rightarrow> string list \<Rightarrow> string list" where
  "add_col c cs = (if c \<in> set cs then cs else cs @ [c])"

definition assign :: "string \<Rightarrow> (row \<Rightarrow> error + cell) \<Rightarrow> table \<Rightarrow> error + table" where
  "assign c f t =
     bindE (mapE (\<lambda>r. bindE (f r) (\<lambda>v. Inr (r(c := v)))) (rows t))
       (\<lambda>rs. Inr \<lparr>columns = add_col c (columns t), rows = rs\<rparr>)"

text \<open>\<open>df[c] = df[src].apply(f)\<close>\<close>

definition apply_col :: "string \<Rightarrow> string \<Rightarrow> (cell \<Rightarrow> error + cell) \<Rightarrow> table \<Rightarrow> error + table" where
  "apply_col c src f t =
     bindE (require_cols [src] t) (\<lambda>_. assign c (\<lambda>r. f (r src)) t)"

text \<open>\<open>df.drop(cs, axis=1, inplace=True)\<close>\<close>

definition drop_cols :: "string list \<Rightarrow> table \<Rightarrow> error + table" where
  "drop_cols cs t =
     bindE (require_cols cs t)
       (\<lambda>_. Inr \<lparr>columns = filter (\<lambda>c. c \<notin> set cs) (columns t),
                  rows = map (\<lambda>r c. if c \<in> set cs then VNull else r c) (rows t)\<rparr>)"

text \<open>\<open>df.isnull().any().any()\<close>\<close>

definition has_null :: "table \<Rightarrow> bool" where
  "has_null t = (\<exists>r \<in> set (rows t). \<exists>c \<in> set (columns t). r c = VNull)"

text \<open>
  Equality of keys in \<open>merge\<close>, \<open>groupby\<close>, \<open>value_counts\<close> and
  \<open>drop_duplicates\<close> is Python's: the integer 1 and the float 1.0 are the same key.
  In \<open>merge\<close> a missing key matches a missing key.
\<close>

fun norm_key :: "cell \<Rightarrow> cell" where
  "norm_key (VInt i) = VFlt (of_int i)"
| "norm_key v = v"

text \<open>
  \<open>left.merge(right, on=key, how='left')\<close>.  Columns other than the key that both
  tables have get the suffixes \<open>_x\<close> and \<open>_y\<close>.  Every left row is kept, in order:
  once per matching right row (in the right table's order), or once with missing values
  in the right table's columns when nothing matches.
\<close>

definition overlap :: "string \<Rightarrow> table \<Rightarrow> table \<Rightarrow> string list" where
  "overlap key l r = filter (\<lambda>c. c \<noteq> key \<and> c \<in> set (columns r)) (columns l)"

definition lname :: "string list \<Rightarrow> string \<Rightarrow> string" where
  "lname ov c = (if c \<in> set ov then c @ ''_x'' else c)"

definition rname :: "string list \<Rightarrow> string \<Rightarrow> string" where
  "rname ov c = (if c \<in> set ov then c @ ''_y'' else c)"

definition right_cols :: "string \<Rightarrow> table \<Rightarrow> string list" where
  "right_cols key r = filter (\<lambda>c. c \<noteq> key) (columns r)"

definition join_row :: "string list \<Rightarrow> string list \<Rightarrow> string list \<Rightarrow> row \<Rightarrow> row \<Rightarrow> row" where
  "join_row ov lcols rcols lr rr =
     (\<lambda>c. case filter (\<lambda>c'. lname ov c' = c) lcols of
             c' # _ \<Rightarrow> lr c'
           | [] \<Rightarrow> (case filter (\<lambda>c'. rname ov c' = c) rcols of
                      c' # _ \<Rightarrow> rr c'
                    | [] \<Rightarrow> VNull))"

definition matches :: "string \<Rightarrow> table \<Rightarrow> row \<Rightarrow> row list" where
  "matches key r lr = filter (\<lambda>rr. norm_key (rr key) = norm_key (lr key)) (rows r)"

definition merge_left :: "string \<Rightarrow> table \<Rightarrow> table \<Rightarrow> error + table" where
  "merge_left key l r =
     bindE (require_cols [key] l) (\<lambda>_.
     bindE (require_cols [key] r) (\<lambda>_.
       let ov = overlap key l r;
           rcols = right_cols key r
       in Inr \<lparr>columns = map (lname ov) (columns l) @ map (rname ov) rcols,
                rows = concat (map (\<lambda>lr.
                         case matches key r lr of
                           [] \<Rightarrow> [join_row ov (columns l) rcols lr (\<lambda>_. VNull)]
                         | ms \<Rightarrow> map (join_row ov (columns l) rcols lr) ms)
                       (rows l))\<rparr>))"

text \<open>
  \<open>df[c].value_counts().reset_index()\<close> with the two columns then renamed to
  \<open>key\<close> and \<open>cnt\<close>: one row per distinct key that is not missing, with the number of
  rows that carry it.  The order of these rows (by descending count in pandas) is not
  observable in this program, where the result is only the right side of a left merge on
  its unique key.
\<close>

definition keys_of :: "string \<Rightarrow> row list \<Rightarrow> cell list" where
  "keys_of c rs = remdups (filter (\<lambda>k. k \<noteq> VNull) (map (\<lambda>r. norm_key (r c)) rs))"

definition count_key :: "string \<Rightarrow> row list \<Rightarrow> cell \<Rightarrow> nat" where
  "count_key c rs k = length (filter (\<lambda>r. norm_key (r c) = k) rs)"

definition value_counts :: "string \<Rightarrow> string \<Rightarrow> string \<Rightarrow> table \<Rightarrow> error + table" where
  "value_counts c key cnt t =
     bindE (require_cols [c] t) (\<lambda>_.
       Inr \<lparr>columns = [key, cnt],
            rows = map (\<lambda>k. (\<lambda>_. VNull)(key := k, cnt := VInt (int (count_key c (rows t) k))))
                       (keys_of c (rows t))\<rparr>)"

text \<open>\<open>df[cs]\<close> as a new table: the listed columns, in the listed order.\<close>

definition select_cols :: "string list \<Rightarrow> table \<Rightarrow> error + table" where
  "select_cols cs t =
     bindE (require_cols cs t)
       (\<lambda>_. Inr \<lparr>columns = cs,
                  rows = map (\<lambda>r c. if c \<in> set cs then r c else VNull) (rows t)\<rparr>)"

text \<open>
  \<open>df.drop_duplicates(key)\<close>: of the rows that share a key the first one is kept;
  missing keys count as one key.
\<close>

fun drop_duplicates :: "string \<Rightarrow> row list \<Rightarrow> row list" where
  "drop_duplicates key [] = []"
| "drop_duplicates key (r # rs) =
     r # drop_duplicates key (filter (\<lambda>r'. norm_key (r' key) \<noteq> norm_key (r key)) rs)"

text \<open>The numeric value of a cell, when it has one.\<close>

fun num_of :: "cell \<Rightarrow> rat option" where
  "num_of (VInt i) = Some (of_int i)"
| "num_of (VFlt x) = Some x"
| "num_of _ = None"

definition is_numeric_col :: "string \<Rightarrow> table \<Rightarrow> bool" where
  "is_numeric_col c t = (\<forall>r \<in> set (rows t). r c = VNull \<or> num_of (r c) \<noteq> None)"

text \<open>
  \<open>df[[key, val]].groupby(key).agg(['mean', 'count']).reset_index()\<close> with the columns
  then renamed to \<open>key\<close>, \<open>mean_name\<close>, \<open>count_name\<close>.  Rows with a missing key
  belong to no group; missing values are skipped by both aggregates; a column that is not
  numeric has no mean (pandas: \<open>DataError\<close>).  The order of the groups is not observable
  in this program.
\<close>

definition group_values :: "string \<Rightarrow> string \<Rightarrow> row list \<Rightarrow> cell \<Rightarrow> rat list" where
  "group_values key val rs k =
     concat (map (\<lambda>r. if norm_key (r key) = k then (case num_of (r val) of Some x \<Rightarrow> [x] | None \<Rightarrow> []) else []) rs)"

definition mean_cell :: "rat list \<Rightarrow> cell" where
  "mean_cell xs = (if xs = [] then VNull else VFlt (sum_list xs / of_nat (length xs)))"

definition group_mean_count :: "string \<Rightarrow> string \<Rightarrow> string \<Rightarrow> string \<Rightarrow> table \<Rightarrow> error + table" where
  "group_mean_count key val mean_name count_name t =
     bindE (require_cols [key, val] t) (\<lambda>_.
       if \<not> is_numeric_col val t then Inl DataError
       else Inr \<lparr>columns = [key, mean_name, count_name],
                 rows = map (\<lambda>k. (\<lambda>_. VNull)
                               (key := k,
                                mean_name := mean_cell (group_values key val (rows t) k),
                                count_name := VInt (int (length (group_values key val (rows t) k)))))
                            (keys_of key (rows t))\<rparr>)"

text \<open>
  \<open>df.groupby(key).agg('count').reset_index()\<close> on a table of the two columns \<open>val\<close>
  and \<open>key\<close>, the columns then renamed to \<open>key\<close> and \<open>count_name\<close>: per group, the
  number of rows whose \<open>val\<close> is not missing.
\<close>

definition group_count :: "string \<Rightarrow> string \<Rightarrow> string \<Rightarrow> table \<Rightarrow> table" where
  "group_count key val count_name t =
     \<lparr>columns = [key, count_name],
      rows = map (\<lambda>k. (\<lambda>_. VNull)
                    (key := k,
                     count_name := VInt (int (length (filter (\<lambda>r. norm_key (r key) = k \<and> r val \<noteq> VNull) (rows t))))))
                 (keys_of key (rows t))\<rparr>"

section \<open>EngineeringProcessor\<close>

definition generate_play_count :: "table \<Rightarrow> table \<Rightarrow> error + table" where
  "generate_play_count ref_df df =
     bindE (value_counts ''song_id'' ''song_id'' ''play_count'' ref_df) (\<lambda>count_df.
     bindE (merge_left ''song_id'' df count_df) (\<lambda>df1.
     fillna ''play_count'' (VInt 0) df1))"

definition generate_track_count :: "table \<Rightarrow> table \<Rightarrow> error + table" where
  "generate_track_count ref_df df =
     bindE (select_cols [''song_id'', ''artist_name''] ref_df) (\<lambda>sel.
     let track_count_df =
           group_count ''artist_name'' ''song_id'' ''track_count''
             (sel\<lparr>rows := drop_duplicates ''song_id'' (rows sel)\<rparr>)
     in
     bindE (select_cols [''artist_name'', ''target''] df) (\<lambda>own.
     bindE (group_mean_count ''artist_name'' ''target'' ''replay_pb'' ''play_count'' own) (\<lambda>artist_count_df.
     bindE (merge_left ''artist_name'' artist_count_df track_count_df) (\<lambda>artist_count_df1.
     bindE (select_cols [''artist_name'', ''track_count''] artist_count_df1) (\<lambda>right.
     bindE (merge_left ''artist_name'' df right) (\<lambda>df1.
     fillna ''track_count'' (VInt 0) df1))))))"

text \<open>
  \<open>ref_df[['artist_name', 'language']].drop_duplicates(['artist_name', 'language'])\<close>:
  the first row of every (artist, language) pair.
\<close>

fun drop_duplicates2 :: "string \<Rightarrow> string \<Rightarrow> row list \<Rightarrow> row list" where
  "drop_duplicates2 k1 k2 [] = []"
| "drop_duplicates2 k1 k2 (r # rs) =
     r # drop_duplicates2 k1 k2
           (filter (\<lambda>r'. \<not> (norm_key (r' k1) = norm_key (r k1) \<and> norm_key (r' k2) = norm_key (r k2))) rs)"

definition generate_cover_lang :: "table \<Rightarrow> table \<Rightarrow> error + table" where
  "generate_cover_lang ref_df df =
     bindE (select_cols [''artist_name'', ''language''] ref_df) (\<lambda>sel.
     bindE (value_counts ''artist_name'' ''artist_name'' ''cover_lang''
              (sel\<lparr>rows := drop_duplicates2 ''artist_name'' ''language'' (rows sel)\<rparr>)) (\<lambda>cover_lang_df.
     bindE (merge_left ''artist_name'' df cover_lang_df) (\<lambda>df1.
     fillna ''cover_lang'' (VInt 0) df1)))"

definition EngineeringProcessor_parse :: "table \<Rightarrow> table \<Rightarrow> error + table" where
  "EngineeringProcessor_parse ref_df df =
     bindE (generate_play_count ref_df df) (\<lambda>df1.
     bindE (generate_track_count ref_df df1) (\<lambda>df2.
     generate_cover_lang ref_df df2))"

section \<open>Python strings and scalars\<close>

text \<open>\<open>sub in s\<close>\<close>

fun str_contains :: "string \<Rightarrow> string \<Rightarrow> bool" where
  "str_contains sub [] = (sub = [])"
| "str_contains sub (c # cs) = (take (length sub) (c # cs) = sub \<or> str_contains sub cs)"

text \<open>
  \<open>s.count(sub)\<close> for a non-empty \<open>sub\<close>: the occurrences are counted from the left and
  do not overlap; \<open>skip\<close> is the number of characters still covered by the last one.
\<close>

fun count_from :: "string \<Rightarrow> nat \<Rightarrow> string \<Rightarrow> nat" where
  "count_from sub skip [] = 0"
| "count_from sub skip (c # cs) =
     (if 0 < skip then count_from sub (skip - 1) cs
      else if take (length sub) (c # cs) = sub then Suc (count_from sub (length sub - 1) cs)
      else count_from sub 0 cs)"

definition str_count :: "string \<Rightarrow> string \<Rightarrow> nat" where
  "str_count s sub = count_from sub 0 s"

definition digit_char :: "nat \<Rightarrow> char" where
  "digit_char n = ''0123456789'' ! n"

function show_nat :: "nat \<Rightarrow> string" where
  "show_nat n = (if n < 10 then [digit_char n] else show_nat (n div 10) @ [digit_char (n mod 10)])"
  by pat_completeness auto
termination
  by (relation "measure id") auto

declare show_nat.simps [simp del]

definition show_int :: "int \<Rightarrow> string" where
  "show_int i = (if i < 0 then CHR ''-'' # show_nat (nat (- i)) else show_nat (nat i))"

text \<open>
  \<open>str(x)\<close>.  The text Python prints for a float or a timestamp is not computed here: it
  is the parameter \<open>repr\<close>, and every result below holds for any such function.
\<close>

definition py_str :: "(cell \<Rightarrow> string) \<Rightarrow> cell \<Rightarrow> string" where
  "py_str repr v =
     (case v of
        VNull \<Rightarrow> ''nan''
      | VStr s \<Rightarrow> s
      | VInt i \<Rightarrow> show_int i
      | _ \<Rightarrow> repr v)"

text \<open>\<open>a == b\<close> on scalars: numbers by value, a missing value equals nothing.\<close>

definition py_eq :: "cell \<Rightarrow> cell \<Rightarrow> bool" where
  "py_eq a b = (a \<noteq> VNull \<and> b \<noteq> VNull \<and> norm_key a = norm_key b)"

text \<open>
  An order comparison of a cell with a number: defined on numbers, false on a missing
  value (NaN), \<open>TypeError\<close> on a string or a timestamp.
\<close>

definition num_test :: "(rat \<Rightarrow> bool) \<Rightarrow> cell \<Rightarrow> error + bool" where
  "num_test p v =
     (case v of
        VNull \<Rightarrow> Inr False
      | VInt i \<Rightarrow> Inr (p (of_int i))
      | VFlt x \<Rightarrow> Inr (p x)
      | _ \<Rightarrow> Inl TypeError)"

definition flag :: "bool \<Rightarrow> cell" where
  "flag b = VInt (if b then 1 else 0)"

text \<open>\<open>.astype(np.int8)\<close> wraps to eight bits.\<close>

definition int8 :: "int \<Rightarrow> int" where
  "int8 i = (i + 128) mod 256 - 128"

text \<open>Column access in the order the source reads the columns: the first missing one raises.\<close>

fun require_each :: "string list \<Rightarrow> table \<Rightarrow> error + unit" where
  "require_each [] t = Inr ()"
| "require_each (c # cs) t = (if c \<in> set (columns t) then require_each cs t else Inl (KeyError [c]))"

section \<open>TrainTestProcessor\<close>

definition one_hot_encode_system_tab :: "cell \<Rightarrow> cell" where
  "one_hot_encode_system_tab x = flag (py_eq x (VStr ''my library''))"

definition one_hot_encode_screen_name :: "cell \<Rightarrow> cell" where
  "one_hot_encode_screen_name x =
     flag (py_eq x (VStr ''Local playlist more'') \<or> py_eq x (VStr ''My library''))"

definition one_hot_encode_source_type :: "cell \<Rightarrow> cell" where
  "one_hot_encode_source_type x =
     flag (py_eq x (VStr ''local-library'') \<or> py_eq x (VStr ''local-playlist''))"

definition one_hot_encode_source :: "cell \<Rightarrow> error + cell" where
  "one_hot_encode_source x = bindE (num_test (\<lambda>v. 6 / 10 \<le> v) x) (\<lambda>b. Inr (flag b))"

definition source_merged :: "(cell \<Rightarrow> string) \<Rightarrow> row \<Rightarrow> cell" where
  "source_merged repr r =
     VStr (py_str repr (r ''source_system_tab'') @ '' | '' @
           py_str repr (r ''source_screen_name'') @ '' | '' @
           py_str repr (r ''source_type''))"

definition TrainTestProcessor_parse :: "(cell \<Rightarrow> string) \<Rightarrow> table \<Rightarrow> error + table" where
  "TrainTestProcessor_parse repr df =
     bindE (fillna ''source_system_tab'' (VStr ''others'') df) (\<lambda>d1.
     bindE (fillna ''source_screen_name'' (VStr ''others'') d1) (\<lambda>d2.
     bindE (fillna ''source_type'' (VStr ''nan'') d2) (\<lambda>d3.
     bindE (assign ''source_merged'' (\<lambda>r. Inr (source_merged repr r)) d3) (\<lambda>d4.
     bindE (select_cols [''source_merged'', ''target''] d4) (\<lambda>pair.
     bindE (group_mean_count ''source_merged'' ''target'' ''source_replay_pb'' ''source_replay_count'' pair) (\<lambda>count_df.
     bindE (merge_left ''source_merged'' d4 count_df) (\<lambda>d5.
     bindE (apply_col ''1h_source'' ''source_replay_pb'' one_hot_encode_source d5) (\<lambda>d6.
     bindE (apply_col ''1h_system_tab'' ''source_system_tab'' (\<lambda>x. Inr (one_hot_encode_system_tab x)) d6) (\<lambda>d7.
     bindE (apply_col ''1h_screen_name'' ''source_screen_name'' (\<lambda>x. Inr (one_hot_encode_screen_name x)) d7) (\<lambda>d8.
     bindE (apply_col ''1h_source_type'' ''source_type'' (\<lambda>x. Inr (one_hot_encode_source_type x)) d8) (\<lambda>d9.
     bindE (drop_cols [''source_merged'', ''source_replay_pb'', ''source_replay_count''] d9) (\<lambda>d10.
     if has_null d10 then Inl DataIntegrityError else Inr d10))))))))))))"

section \<open>SongsProcessor\<close>

definition is_featured :: "(cell \<Rightarrow> string) \<Rightarrow> cell \<Rightarrow> cell" where
  "is_featured repr x = flag (str_contains ''feat'' (py_str repr x))"

text \<open>\<open>x.count\<close> exists on strings only.\<close>

definition artist_count :: "cell \<Rightarrow> error + cell" where
  "artist_count x =
     (if py_eq x (VStr ''no_artist'') then Inr (VInt 0)
      else case x of
             VStr s \<Rightarrow> Inr (VInt (int (str_count s ''and'' + str_count s '','' +
                                       str_count s ''feat'' + str_count s ''&'')))
           | _ \<Rightarrow> Inl AttributeError)"

definition song_lang_boolean :: "(cell \<Rightarrow> string) \<Rightarrow> cell \<Rightarrow> cell" where
  "song_lang_boolean repr x =
     flag (str_contains ''17.0'' (py_str repr x) \<or> str_contains ''45.0'' (py_str repr x))"

text \<open>
  The six \<open>x.replace(...)\<close> calls of the source discard their results, so only the
  character \<open>|\<close> separates.
\<close>

definition parse_splitted_category_to_number :: "(cell \<Rightarrow> string) \<Rightarrow> cell \<Rightarrow> cell" where
  "parse_splitted_category_to_number repr x =
     (if x = VNull then VInt 0 else VInt (int (str_count (py_str repr x) ''|'') + 1))"

definition one_hot_encode_lang :: "cell \<Rightarrow> cell" where
  "one_hot_encode_lang x = flag (py_eq x (VInt (- 1)) \<or> py_eq x (VInt 17) \<or> py_eq x (VInt 45))"

definition int8_cell :: "cell \<Rightarrow> cell" where
  "int8_cell v = (case v of VInt i \<Rightarrow> VInt (int8 i) | _ \<Rightarrow> v)"

definition SongsProcessor_parse :: "(cell \<Rightarrow> string) \<Rightarrow> table \<Rightarrow> error + table" where
  "SongsProcessor_parse repr df =
     bindE (fillna ''artist_name'' (VStr ''no_artist'') df) (\<lambda>d1.
     bindE (fillna ''language'' (VStr ''nan'') d1) (\<lambda>d2.
     bindE (fillna ''composer'' (VStr ''nan'') d2) (\<lambda>d3.
     bindE (fillna ''lyricist'' (VStr ''nan'') d3) (\<lambda>d4.
     bindE (fillna ''genre_ids'' (VStr ''nan'') d4) (\<lambda>d5.
     bindE (apply_col ''is_featured'' ''artist_name'' (\<lambda>x. Inr (int8_cell (is_featured repr x))) d5) (\<lambda>d6.
     bindE (apply_col ''artist_count'' ''artist_name'' (\<lambda>x. bindE (artist_count x) (\<lambda>v. Inr (int8_cell v))) d6) (\<lambda>d7.
     bindE (assign ''artist_composer''
              (\<lambda>r. Inr (int8_cell (flag (py_eq (r ''artist_name'') (r ''composer''))))) d7) (\<lambda>d8.
     bindE (assign ''artist_composer_lyricist''
              (\<lambda>r. Inr (int8_cell (flag (py_eq (r ''artist_name'') (r ''composer'') \<and>
                                          py_eq (r ''artist_name'') (r ''lyricist'') \<and>
                                          py_eq (r ''composer'') (r ''lyricist''))))) d8) (\<lambda>d9.
     bindE (apply_col ''song_lang_boolean'' ''language'' (\<lambda>x. Inr (int8_cell (song_lang_boolean repr x))) d9) (\<lambda>d10.
     bindE (apply_col ''genre_count'' ''genre_ids'' (\<lambda>x. Inr (parse_splitted_category_to_number repr x)) d10) (\<lambda>d11.
     bindE (apply_col ''composer_count'' ''composer'' (\<lambda>x. Inr (parse_splitted_category_to_number repr x)) d11) (\<lambda>d12.
     bindE (apply_col ''lyricist_count'' ''lyricist'' (\<lambda>x. Inr (parse_splitted_category_to_number repr x)) d12) (\<lambda>d13.
     bindE (apply_col ''1h_lang'' ''language'' (\<lambda>x. Inr (one_hot_encode_lang x)) d13) (\<lambda>d14.
     bindE (apply_col ''1h_song_length'' ''song_length''
              (\<lambda>x. bindE (num_test (\<lambda>v. v \<le> 239738) x) (\<lambda>b. Inr (flag b))) d14) (\<lambda>d15.
     if has_null d15 then Inl DataIntegrityError else Inr d15)))))))))))))))"


section \<open>MembersProcessor\<close>

text \<open>The number of days from 1970-01-01 to a calendar date (proleptic Gregorian).\<close>

definition days_from_civil :: "int \<Rightarrow> int \<Rightarrow> int \<Rightarrow> int" where
  "days_from_civil y m d =
     (let y1 = (if m \<le> 2 then y - 1 else y);
          era = y1 div 400;
          yoe = y1 - era * 400;
          doy = (153 * (if 2 < m then m - 3 else m + 9) + 2) div 5 + d - 1;
          doe = yoe * 365 + yoe div 4 - yoe div 100 + doy
      in era * 146097 + doe - 719468)"

definition is_date_col :: "string \<Rightarrow> table \<Rightarrow> bool" where
  "is_date_col c t = (\<forall>r \<in> set (rows t). case r c of VDate _ _ _ \<Rightarrow> True | VNull \<Rightarrow> True | _ \<Rightarrow> False)"

text \<open>
  \<open>df['expiration_date'].subtract(df['registration_init_time']).dt.days.astype(int)\<close>:
  both columns must hold timestamps (\<open>TypeError\<close> otherwise), and a missing timestamp
  gives a NaN that \<open>astype(int)\<close> refuses (\<open>ValueError\<close>).
\<close>

definition days_between :: "cell \<Rightarrow> cell \<Rightarrow> error + cell" where
  "days_between e s =
     (case (e, s) of
        (VDate y1 m1 d1, VDate y2 m2 d2) \<Rightarrow>
          Inr (VInt (days_from_civil y1 m1 d1 - days_from_civil y2 m2 d2))
      | _ \<Rightarrow> Inl ValueError)"

definition membership_days :: "table \<Rightarrow> error + table" where
  "membership_days t =
     bindE (require_each [''expiration_date'', ''registration_init_time''] t) (\<lambda>_.
       if \<not> (is_date_col ''expiration_date'' t \<and> is_date_col ''registration_init_time'' t)
       then Inl TypeError
       else assign ''membership_days''
              (\<lambda>r. days_between (r ''expiration_date'') (r ''registration_init_time'')) t)"

definition dt_year :: "cell \<Rightarrow> cell" where
  "dt_year v = (case v of VDate y _ _ \<Rightarrow> VInt y | _ \<Rightarrow> VNull)"

definition dt_month :: "cell \<Rightarrow> cell" where
  "dt_month v = (case v of VDate _ m _ \<Rightarrow> VInt m | _ \<Rightarrow> VNull)"

text \<open>The two constants of the source are the decimal fractions written there.\<close>

definition bd_mean :: rat where
  "bd_mean = 2899737187910644 / 100000000000000"

definition bd_std :: rat where
  "bd_std = 9538470787507382 / 1000000000000000"

definition transform_bd_outliers :: "cell \<Rightarrow> error + cell" where
  "transform_bd_outliers bd =
     bindE (num_test (\<lambda>v. 120 \<le> v) bd) (\<lambda>hi.
       if hi then Inr (VStr ''nan'')
       else bindE (num_test (\<lambda>v. v \<le> 7) bd) (\<lambda>lo.
         if lo then Inr (VStr ''nan'')
         else bindE (num_test (\<lambda>v. \<bar>v - bd_mean\<bar> \<le> 3 * bd_std) bd) (\<lambda>ok.
           Inr (if ok then bd else VStr ''nan''))))"

definition one_hot_encode_via :: "cell \<Rightarrow> cell" where
  "one_hot_encode_via x = flag (\<not> py_eq x (VInt 4))"

definition MembersProcessor_parse :: "table \<Rightarrow> error + table" where
  "MembersProcessor_parse df =
     bindE (fillna ''gender'' (VStr ''nan'') df) (\<lambda>d1.
     bindE (membership_days d1) (\<lambda>d2.
     bindE (apply_col ''registration_year'' ''registration_init_time'' (\<lambda>x. Inr (dt_year x)) d2) (\<lambda>d3.
     bindE (apply_col ''registration_month'' ''registration_init_time'' (\<lambda>x. Inr (dt_month x)) d3) (\<lambda>d4.
     bindE (apply_col ''expiration_year'' ''expiration_date'' (\<lambda>x. Inr (dt_year x)) d4) (\<lambda>d5.
     bindE (apply_col ''expiration_month'' ''expiration_date'' (\<lambda>x. Inr (dt_month x)) d5) (\<lambda>d6.
     bindE (drop_cols [''registration_init_time''] d6) (\<lambda>d7.
     bindE (apply_col ''bd'' ''bd'' transform_bd_outliers d7) (\<lambda>d8.
     bindE (apply_col ''1h_via'' ''registered_via'' (\<lambda>x. Inr (one_hot_encode_via x)) d8) (\<lambda>d9.
     if has_null d9 then Inl DataIntegrityError else Inr d9)))))))))"

section \<open>SongExtraProcessor\<close>

definition is_space :: "char \<Rightarrow> bool" where
  "is_space c = (c \<in> set [CHR '' '', CHR 0x09, CHR 0x0A, CHR 0x0B, CHR 0x0C, CHR 0x0D,
                            CHR 0x1C, CHR 0x1D, CHR 0x1E, CHR 0x1F])"

definition digit_value :: "char \<Rightarrow> nat option" where
  "digit_value c = (if c \<in> set ''0123456789'' then Some (of_char c - 48) else None)"

fun digits_value :: "nat \<Rightarrow> string \<Rightarrow> nat option" where
  "digits_value acc [] = Some acc"
| "digits_value acc (c # cs) =
     (case digit_value c of None \<Rightarrow> None | Some d \<Rightarrow> digits_value (10 * acc + d) cs)"

text \<open>
  \<open>int(s)\<close> for the at most two characters of \<open>isrc[5:7]\<close>: surrounding white space is
  dropped, one sign is allowed, at least one digit must follow and nothing else.
\<close>

definition py_int :: "string \<Rightarrow> error + int" where
  "py_int s =
     (let t = rev (dropWhile is_space (rev (dropWhile is_space s)));
          neg = (t \<noteq> [] \<and> hd t = CHR ''-'');
          body = (if t \<noteq> [] \<and> (hd t = CHR ''-'' \<or> hd t = CHR ''+'') then tl t else t)
      in if body = [] then Inl ValueError
         else case digits_value 0 body of
                None \<Rightarrow> Inl ValueError
              | Some n \<Rightarrow> Inr (if neg then - int n else int n))"

definition transform_isrc_to_year :: "cell \<Rightarrow> error + cell" where
  "transform_isrc_to_year isrc =
     (case isrc of
        VStr s \<Rightarrow>
          bindE (py_int (take 2 (drop 5 s)))
            (\<lambda>suffix. Inr (VInt (if 17 < suffix then 1900 + suffix else 2000 + suffix)))
      | _ \<Rightarrow> Inr VNull)"

text \<open>\<open>float(x)\<close> of a string is not needed: the column holds years or missing values.\<close>

definition one_hot_encode_year :: "cell \<Rightarrow> error + cell" where
  "one_hot_encode_year x =
     bindE (num_test (\<lambda>v. 2013 \<le> v \<and> v \<le> 2017) x) (\<lambda>b. Inr (flag b))"

definition SongExtraProcessor_parse :: "table \<Rightarrow> error + table" where
  "SongExtraProcessor_parse df =
     bindE (apply_col ''song_year'' ''isrc'' transform_isrc_to_year df) (\<lambda>d1.
     bindE (drop_cols [''name'', ''isrc''] d1) (\<lambda>d2.
     bindE (apply_col ''1h_song_year'' ''song_year'' one_hot_encode_year d2) (\<lambda>d3.
     bindE (fillna ''song_year'' (VInt 2017) d3) (\<lambda>d4.
     if has_null d4 then Inl DataIntegrityError else Inr d4))))"

section \<open>DataProcessor.process\<close>

text \<open>
  The table argument and the reference table may be \<open>None\<close>.  A \<open>parse\<close> method that
  subscripts \<open>None\<close> raises \<open>TypeError\<close>; the engineering transformer reads its reference
  table first and then calls \<open>df.merge\<close>, an \<open>AttributeError\<close> on \<open>None\<close>.
\<close>

definition on_table :: "(table \<Rightarrow> error + table) \<Rightarrow> table option \<Rightarrow> error + table" where
  "on_table parse df = (case df of None \<Rightarrow> Inl TypeError | Some t \<Rightarrow> parse t)"

definition process :: "(cell \<Rightarrow> string) \<Rightarrow> table option \<Rightarrow> string \<Rightarrow> table option \<Rightarrow> error + table" where
  "process repr df command ref_df =
     (if command \<in> set [''train'', ''test''] then on_table (TrainTestProcessor_parse repr) df
      else if command = ''members'' then on_table MembersProcessor_parse df
      else if command = ''songs'' then on_table (SongsProcessor_parse repr) df
      else if command = ''song_extra_info'' then on_table SongExtraProcessor_parse df
      else if command = ''engineering'' then
        (case ref_df of
           None \<Rightarrow> Inl DispatchError
         | Some ref \<Rightarrow>
             (case df of
                None \<Rightarrow> bindE (value_counts ''song_id'' ''song_id'' ''play_count'' ref)
                                (\<lambda>_. Inl AttributeError)
              | Some t \<Rightarrow> EngineeringProcessor_parse ref t))
      else Inl DispatchError)"

section \<open>FeatureProcessor\<close>

definition INITIALIZATION_READY :: nat where "INITIALIZATION_READY = 0"
definition LOAD_READY :: nat where "LOAD_READY = 1"
definition PREPROCESS_READY :: nat where "PREPROCESS_READY = 2"
definition ENGINEERING_READY :: nat where "ENGINEERING_READY = 3"

record feature_processor =
  songs_df :: "table option"
  song_extra_info_df :: "table option"
  members_df :: "table option"
  train_df :: "table option"
  test_df :: "table option"
  comb_df :: "table option"
  state :: nat

text \<open>
  What \<open>pd.read_csv\<close> returns for each of the five files under the root directory;
  \<open>None\<close> when the read raises.  Reading and parsing files is outside the model.
\<close>

record raw_files =
  train_csv :: "table option"
  test_csv :: "table option"
  songs_csv :: "table option"
  song_extra_info_csv :: "table option"
  members_csv :: "table option"

definition init :: feature_processor where
  "init = \<lparr>songs_df = None, song_extra_info_df = None, members_df = None,
           train_df = None, test_df = None, comb_df = None,
           state = INITIALIZATION_READY\<rparr>"

definition read_csv :: "table option \<Rightarrow> error + table" where
  "read_csv f = (case f of None \<Rightarrow> Inl FileNotFoundError | Some t \<Rightarrow> Inr t)"

definition load_raw :: "raw_files \<Rightarrow> feature_processor \<Rightarrow> error + feature_processor" where
  "load_raw files s =
     (if \<not> INITIALIZATION_READY \<le> state s then Inl StageOrderError
      else
        bindE (read_csv (train_csv files)) (\<lambda>train.
        bindE (read_csv (test_csv files)) (\<lambda>test.
        bindE (read_csv (songs_csv files)) (\<lambda>songs.
        bindE (read_csv (song_extra_info_csv files)) (\<lambda>extra.
        bindE (read_csv (members_csv files)) (\<lambda>members.
          Inr (s\<lparr>train_df := Some train, test_df := Some test, songs_df := Some songs,
                  song_extra_info_df := Some extra, members_df := Some members,
                  state := LOAD_READY\<rparr>)))))))"

text \<open>
  \<open>train.append(test)\<close>: the rows of both tables, over the columns of either; a column a
  table lacks is missing in its rows.
\<close>

definition append_df :: "table \<Rightarrow> table \<Rightarrow> table" where
  "append_df a b =
     \<lparr>columns = columns a @ filter (\<lambda>c. c \<notin> set (columns a)) (columns b),
      rows = map (\<lambda>r c. if c \<in> set (columns a) then r c else VNull) (rows a) @
             map (\<lambda>r c. if c \<in> set (columns b) then r c else VNull) (rows b)\<rparr>"

text \<open>
  The second call reads \<open>self._train_df\<close>, which the first call has just rebound to its
  result.
\<close>

definition pre_process :: "(cell \<Rightarrow> string) \<Rightarrow> feature_processor \<Rightarrow> error + feature_processor" where
  "pre_process repr s =
     (if \<not> LOAD_READY \<le> state s then Inl StageOrderError
      else
        bindE (process repr (train_df s) ''train'' None) (\<lambda>train1.
        bindE (process repr (Some train1) ''test'' None) (\<lambda>test1.
        bindE (process repr (members_df s) ''members'' None) (\<lambda>members1.
        bindE (process repr (songs_df s) ''songs'' None) (\<lambda>songs1.
        bindE (process repr (song_extra_info_df s) ''song_extra_info'' None) (\<lambda>extra1.
        bindE (merge_left ''song_id'' songs1 extra1) (\<lambda>songs2.
        bindE (merge_left ''song_id'' train1 songs2) (\<lambda>train2.
        bindE (merge_left ''song_id'' test1 songs2) (\<lambda>test2.
        bindE (merge_left ''msno'' train2 members1) (\<lambda>train3.
        bindE (merge_left ''msno'' test2 members1) (\<lambda>test3.
          Inr (s\<lparr>train_df := Some train3, test_df := Some test3, members_df := Some members1,
                  songs_df := Some songs2, song_extra_info_df := Some extra1,
                  comb_df := Some (append_df train3 test3),
                  state := PREPROCESS_READY\<rparr>))))))))))))"

definition feature_engineering :: "(cell \<Rightarrow> string) \<Rightarrow> feature_processor \<Rightarrow> error + feature_processor" where
  "feature_engineering repr s =
     (if \<not> PREPROCESS_READY \<le> state s then Inl StageOrderError
      else
        bindE (process repr (train_df s) ''engineering'' (train_df s)) (\<lambda>train1.
        bindE (process repr (test_df s) ''engineering'' (comb_df s)) (\<lambda>test1.
          Inr (s\<lparr>train_df := Some train1, test_df := Some test1,
                  state := ENGINEERING_READY\<rparr>))))"

text \<open>A sequence of stage-method calls on one object; the first exception ends it.\<close>

datatype stage = Load | Preprocess | Engineer

definition run_stage :: "(cell \<Rightarrow> string) \<Rightarrow> raw_files \<Rightarrow> stage \<Rightarrow> feature_processor \<Rightarrow> error + feature_processor" where
  "run_stage repr files m s =
     (case m of
        Load \<Rightarrow> load_raw files s
      | Preprocess \<Rightarrow> pre_process repr s
      | Engineer \<Rightarrow> feature_engineering repr s)"

fun run_stages :: "(cell \<Rightarrow> string) \<Rightarrow> raw_files \<Rightarrow> stage list \<Rightarrow> feature_processor \<Rightarrow> error + feature_processor" where
  "run_stages repr files [] s = Inr s"
| "run_stages repr files (m # ms) s = bindE (run_stage repr files m s) (run_stages repr files ms)"

text \<open>\<open>main()\<close>\<close>

definition main :: "(cell \<Rightarrow> string) \<Rightarrow> raw_files \<Rightarrow> error + feature_processor" where
  "main repr files = run_stages repr files [Load, Preprocess, Engineer] init"

section \<open>The quantities the specification names\<close>

text \<open>
  The number of rows of the reference table with the same item key as \<open>s\<close>; a missing key
  is the same as no key.
\<close>

definition ref_play_count :: "table \<Rightarrow> cell \<Rightarrow> nat" where
  "ref_play_count ref_df s =
     (if s = VNull then 0 else count_key ''song_id'' (rows ref_df) (norm_key s))"

text \<open>
  The creator an item key is attributed to, its first row in the reference table deciding,
  and the number of distinct item keys attributed to a creator, each counted once.
\<close>

definition attributed_artist :: "table \<Rightarrow> cell \<Rightarrow> cell option" where
  "attributed_artist ref_df s =
     map_option (\<lambda>r. norm_key (r ''artist_name''))
       (find (\<lambda>r. norm_key (r ''song_id'') = s) (rows ref_df))"

definition distinct_tracks :: "table \<Rightarrow> cell \<Rightarrow> nat" where
  "distinct_tracks ref_df a =
     length (filter (\<lambda>s. attributed_artist ref_df s = Some a) (keys_of ''song_id'' (rows ref_df)))"


section \<open>The event-table transform in closed form\<close>

text \<open>
  What \<open>TrainTestProcessor.parse\<close> computes, written row by row: the three fills, the
  replay ratio of the row's source triple over the whole table, the four indicator columns,
  the three helper columns dropped.  It is proved equal to the transform above, on the
  tables where the transform returns.
\<close>

definition fill_cell :: "string \<Rightarrow> cell \<Rightarrow> row \<Rightarrow> row" where
  "fill_cell c v r = (if r c = VNull then r(c := v) else r)"

definition filled_event :: "row \<Rightarrow> row" where
  "filled_event r =
     fill_cell ''source_type'' (VStr ''nan'')
       (fill_cell ''source_screen_name'' (VStr ''others'')
          (fill_cell ''source_system_tab'' (VStr ''others'') r))"

definition keyed_event :: "(cell \<Rightarrow> string) \<Rightarrow> row \<Rightarrow> row" where
  "keyed_event repr r = (filled_event r)(''source_merged'' := source_merged repr (filled_event r))"

definition source_flag :: "cell \<Rightarrow> cell" where
  "source_flag v = flag (case num_of v of Some q \<Rightarrow> 6 / 10 \<le> q | None \<Rightarrow> False)"

definition event_replay_pb :: "(cell \<Rightarrow> string) \<Rightarrow> table \<Rightarrow> row \<Rightarrow> cell" where
  "event_replay_pb repr df r =
     mean_cell (group_values ''source_merged'' ''target'' (map (keyed_event repr) (rows df))
                  (source_merged repr (filled_event r)))"

definition transformed_event_row :: "(cell \<Rightarrow> string) \<Rightarrow> table \<Rightarrow> row \<Rightarrow> row" where
  "transformed_event_row repr df r =
     (\<lambda>c. if c \<in> set [''source_merged'', ''source_replay_pb'', ''source_replay_count''] then VNull
          else if c = ''1h_source_type'' then one_hot_encode_source_type (filled_event r ''source_type'')
          else if c = ''1h_screen_name'' then one_hot_encode_screen_name (filled_event r ''source_screen_name'')
          else if c = ''1h_system_tab'' then one_hot_encode_system_tab (filled_event r ''source_system_tab'')
          else if c = ''1h_source'' then source_flag (event_replay_pb repr df r)
          else if c \<in> set (columns df) then filled_event r c
          else VNull)"

definition transformed_event_columns :: "string list \<Rightarrow> string list" where
  "transformed_event_columns cs =
     filter (\<lambda>c. c \<notin> set [''source_merged'', ''source_replay_pb'', ''source_replay_count''])
       (add_col ''1h_source_type'' (add_col ''1h_screen_name'' (add_col ''1h_system_tab''
          (add_col ''1h_source'' (add_col ''source_merged'' cs @ [''source_replay_pb'', ''source_replay_count''])))))"

definition transformed_events :: "(cell \<Rightarrow> string) \<Rightarrow> table \<Rightarrow> table" where
  "transformed_events repr df =
     \<lparr>columns = transformed_event_columns (columns df),
      rows = map (transformed_event_row repr df) (rows df)\<rparr>"

definition event_pre :: "table \<Rightarrow> bool" where
  "event_pre df =
     (''source_system_tab'' \<in> set (columns df) \<and> ''source_screen_name'' \<in> set (columns df) \<and>
      ''source_type'' \<in> set (columns df) \<and> ''target'' \<in> set (columns df) \<and>
      is_numeric_col ''target'' df \<and>
      ''source_replay_pb'' \<notin> set (columns df) \<and> ''source_replay_count'' \<notin> set (columns df))"

definition merged_columns :: "string list" where
  "merged_columns =
    [''msno'', ''song_id'', ''source_system_tab'', ''source_screen_name'',
     ''source_type'', ''target'', ''1h_source'', ''1h_system_tab'',
     ''1h_screen_name'', ''1h_source_type'', ''song_length'', ''genre_ids'',
     ''artist_name'', ''composer'', ''lyricist'', ''language'',
     ''is_featured'', ''artist_count'', ''artist_composer'',
     ''artist_composer_lyricist'', ''song_lang_boolean'', ''genre_count'',
     ''composer_count'', ''lyricist_count'', ''1h_lang'',
     ''1h_song_length'', ''song_year'', ''1h_song_year'', ''city'', ''bd'',
     ''gender'', ''registered_via'', ''expiration_date'',
     ''membership_days'', ''registration_year'', ''registration_month'',
     ''expiration_year'', ''expiration_month'', ''1h_via'']"

section \<open>Example tables\<close>

definition ref0 :: table where
  "ref0 = \<lparr>columns = [''song_id''],
           rows = [(\<lambda>_. VNull)(''song_id'' := VStr ''A''),
                   (\<lambda>_. VNull)(''song_id'' := VStr ''A''),
                   (\<lambda>_. VNull)(''song_id'' := VStr ''B'')]\<rparr>"

definition tgt0 :: table where
  "tgt0 = \<lparr>columns = [''song_id''],
           rows = [(\<lambda>_. VNull)(''song_id'' := VStr ''A''),
                   (\<lambda>_. VNull)(''song_id'' := VStr ''C'')]\<rparr>"



text \<open>The commands \<open>DataProcessor.process\<close> knows.\<close>

definition commands :: "string list" where
  "commands = [''train'', ''test'', ''members'', ''songs'', ''song_extra_info'', ''engineering'']"

text \<open>
  Raw tables for a run of the whole pipeline: the songs table lists song \<open>s1\<close> twice and
  has no song \<open>s9\<close>.  No printed column holds a float or a
  timestamp, so \<open>str\<close> never asks for their text and \<open>repr0\<close> is never called.
\<close>

definition repr0 :: "cell \<Rightarrow> string" where
  "repr0 v = []"

definition event_columns :: "string list" where
  "event_columns = [''msno'', ''song_id'', ''source_system_tab'', ''source_screen_name'', ''source_type'']"

definition event_row :: "string \<Rightarrow> string \<Rightarrow> cell \<Rightarrow> cell \<Rightarrow> cell \<Rightarrow> row" where
  "event_row user song tab screen typ =
     (\<lambda>_. VNull)(''msno'' := VStr user, ''song_id'' := VStr song, ''source_system_tab'' := tab,
                  ''source_screen_name'' := screen, ''source_type'' := typ)"

definition train_raw :: table where
  "train_raw =
     \<lparr>columns = event_columns @ [''target''],
      rows = [(event_row ''u1'' ''s1'' (VStr ''my library'') (VStr ''Local playlist more'')
                 (VStr ''local-library''))(''target'' := VInt 1),
              (event_row ''u1'' ''s9'' VNull (VStr ''Explore'')
                 (VStr ''online-playlist''))(''target'' := VInt 0)]\<rparr>"

definition test_raw :: table where
  "test_raw =
     \<lparr>columns = ''id'' # event_columns,
      rows = [(event_row ''u2'' ''s1'' (VStr ''discover'') VNull (VStr ''song''))(''id'' := VInt 0)]\<rparr>"

definition song_row :: "string \<Rightarrow> row" where
  "song_row song =
     (\<lambda>_. VNull)(''song_id'' := VStr song, ''song_length'' := VInt 200000,
                  ''genre_ids'' := VStr ''465|958'', ''artist_name'' := VStr ''A feat. B'',
                  ''composer'' := VStr ''A'', ''lyricist'' := VNull, ''language'' := VInt 3)"

definition song_columns :: "string list" where
  "song_columns = [''song_id'', ''song_length'', ''genre_ids'', ''artist_name'', ''composer'',
                   ''lyricist'', ''language'']"

definition songs_raw :: table where
  "songs_raw = \<lparr>columns = song_columns, rows = [song_row ''s1'', song_row ''s1'']\<rparr>"

definition song_extra_raw :: table where
  "song_extra_raw =
     \<lparr>columns = [''song_id'', ''name'', ''isrc''],
      rows = [(\<lambda>_. VNull)(''song_id'' := VStr ''s1'', ''name'' := VStr ''n1'',
                            ''isrc'' := VStr ''TWUM71200043'')]\<rparr>"

definition members_raw :: table where
  "members_raw =
     \<lparr>columns = [''msno'', ''city'', ''bd'', ''gender'', ''registered_via'',
                 ''registration_init_time'', ''expiration_date''],
      rows = [(\<lambda>_. VNull)(''msno'' := VStr ''u1'', ''city'' := VInt 1, ''bd'' := VInt 25,
                            ''gender'' := VNull, ''registered_via'' := VInt 7,
                            ''registration_init_time'' := VDate 2011 8 20,
                            ''expiration_date'' := VDate 2017 9 20)]\<rparr>"

definition files0 :: raw_files where
  "files0 = \<lparr>train_csv = Some train_raw, test_csv = Some test_raw, songs_csv = Some songs_raw,
             song_extra_info_csv = Some song_extra_raw, members_csv = Some members_raw\<rparr>"

text \<open>An event table with every column of the train table and one missing user key.\<close>

definition train_null :: table where
  "train_null =
     \<lparr>columns = event_columns @ [''target''],
      rows = [(event_row ''u1'' ''s1'' (VStr ''my library'') (VStr ''Local playlist more'')
                 (VStr ''local-library''))(''target'' := VInt 1, ''msno'' := VNull)]\<rparr>"

text \<open>The object after \<open>load_raw\<close> has read these files.\<close>

definition loaded0 :: feature_processor where
  "loaded0 = \<lparr>songs_df = Some songs_raw, song_extra_info_df = Some song_extra_raw,
               members_df = Some members_raw, train_df = Some train_raw,
               test_df = Some test_raw, comb_df = None, state = LOAD_READY\<rparr>"

text \<open>A target of the engineering transform with one missing user key.\<close>

definition eng_df :: table where
  "eng_df =
     \<lparr>columns = [''msno'', ''song_id'', ''artist_name'', ''language'', ''target''],
      rows = [(\<lambda>_. VNull)(''song_id'' := VStr ''s1'', ''artist_name'' := VStr ''X'',
                            ''language'' := VInt 3, ''target'' := VInt 1)]\<rparr>"

section \<open>Basic facts about the table operations\<close>

lemma bindE_Inl [simp]: "bindE (Inl e) f = Inl e" by (simp add: bindE_def)
lemma bindE_Inr [simp]: "bindE (Inr x) f = f x" by (simp add: bindE_def)

lemma bindE_eq_Inr: "bindE m f = Inr y \<longleftrightarrow> (\<exists>x. m = Inr x \<and> f x = Inr y)"
  by (cases m) auto

lemma require_cols_Inr: "require_cols cs t = Inr u \<longleftrightarrow> set cs \<subseteq> set (columns t)"
  by (auto simp: require_cols_def Let_def filter_empty_conv)

lemma require_cols_ok: "set cs \<subseteq> set (columns t) \<Longrightarrow> require_cols cs t = Inr ()"
  by (simp add: require_cols_Inr)

lemma require_cols_missing:
  "c \<in> set cs \<Longrightarrow> c \<notin> set (columns t) \<Longrightarrow> \<exists>ms. require_cols cs t = Inl (KeyError ms)"
  by (auto simp: require_cols_def Let_def filter_empty_conv)

lemma norm_key_idem [simp]: "norm_key (norm_key v) = norm_key v"
  by (cases v) auto

lemma norm_key_Null [simp]: "norm_key v = VNull \<longleftrightarrow> v = VNull"
  by (cases v) auto

lemma keys_of_norm: "k \<in> set (keys_of c rs) \<Longrightarrow> norm_key k = k"
  by (auto simp: keys_of_def)

lemma keys_of_mem: "k \<in> set (keys_of c rs) \<longleftrightarrow> k \<noteq> VNull \<and> (\<exists>r \<in> set rs. norm_key (r c) = k)"
  by (auto simp: keys_of_def)

lemma distinct_keys_of [simp]: "distinct (keys_of c rs)"
  by (simp add: keys_of_def)

lemma filter_eq_distinct: "distinct xs \<Longrightarrow> filter (\<lambda>x. x = k) xs = (if k \<in> set xs then [k] else [])"
  by (induction xs) auto

lemma matches_keyed:
  assumes "\<And>k. mk k key = k"
  shows "matches key \<lparr>columns = cs, rows = map mk (keys_of c rs)\<rparr> lr =
         (if norm_key (lr key) \<in> set (keys_of c rs) then [mk (norm_key (lr key))] else [])"
proof -
  have "filter (\<lambda>rr. norm_key (rr key) = norm_key (lr key)) (map mk (keys_of c rs))
        = map mk (filter (\<lambda>k. k = norm_key (lr key)) (keys_of c rs))"
    by (auto simp: filter_map o_def assms keys_of_norm intro!: arg_cong[where f="map mk"] filter_cong)
  then show ?thesis
    by (simp add: matches_def filter_eq_distinct)
qed

lemma lname_Nil [simp]: "lname [] = (\<lambda>c. c)" by (rule ext) (simp add: lname_def)
lemma rname_Nil [simp]: "rname [] = (\<lambda>c. c)" by (rule ext) (simp add: rname_def)

lemma filter_eq_const_case:
  "(case filter (\<lambda>c'. c' = c) cs of [] \<Rightarrow> a | c' # _ \<Rightarrow> f c') = (if c \<in> set cs then f c else a)"
  by (induction cs) auto

lemma join_row_Nil:
  "join_row [] lcols rcols lr rr =
     (\<lambda>c. if c \<in> set lcols then lr c else if c \<in> set rcols then rr c else VNull)"
  by (rule ext) (simp add: join_row_def filter_eq_const_case)

lemma concat_map_single: "concat (map (\<lambda>x. [f x]) xs) = map f xs"
  by (induction xs) auto

lemma merge_left_keyed:
  assumes key: "key \<in> set (columns l)"
    and mk: "\<And>k. mk k key = k"
    and rc: "key \<notin> set rc" "set rc \<inter> set (columns l) = {}"
  shows "merge_left key l \<lparr>columns = key # rc, rows = map mk (keys_of c rs)\<rparr> =
         Inr \<lparr>columns = columns l @ rc,
              rows = map (\<lambda>lr cn. if cn \<in> set (columns l) then lr cn
                                  else if cn \<in> set rc \<and> norm_key (lr key) \<in> set (keys_of c rs)
                                       then mk (norm_key (lr key)) cn else VNull) (rows l)\<rparr>"
proof -
  let ?r = "\<lparr>columns = key # rc, rows = map mk (keys_of c rs)\<rparr>"
  have ov: "overlap key l ?r = []"
    using rc by (auto simp: overlap_def filter_empty_conv)
  have rcols: "right_cols key ?r = rc"
    using rc by (auto simp: right_cols_def filter_id_conv)
  have one: "(case matches key ?r lr of
                [] \<Rightarrow> [join_row [] (columns l) rc lr (\<lambda>_. VNull)]
              | ms \<Rightarrow> map (join_row [] (columns l) rc lr) ms)
             = [\<lambda>cn. if cn \<in> set (columns l) then lr cn
                      else if cn \<in> set rc \<and> norm_key (lr key) \<in> set (keys_of c rs)
                           then mk (norm_key (lr key)) cn else VNull]" for lr
    by (auto simp: matches_keyed[of mk key, OF mk] join_row_Nil)
  show ?thesis
    using key
    by (simp add: merge_left_def require_cols_ok ov rcols Let_def one concat_map_single
             del: matches_def)
qed

lemma generate_play_count_eq:
  assumes "''song_id'' \<in> set (columns ref_df)" "''song_id'' \<in> set (columns df)"
    "''play_count'' \<notin> set (columns df)"
  shows "generate_play_count ref_df df =
         Inr \<lparr>columns = columns df @ [''play_count''],
              rows = map (\<lambda>lr. (\<lambda>cn. if cn \<in> set (columns df) then lr cn else VNull)
                             (''play_count'' := VInt (if lr ''song_id'' = VNull then 0
                                      else int (count_key ''song_id'' (rows ref_df) (norm_key (lr ''song_id''))))))
                        (rows df)\<rparr>"
proof -
  have vc: "value_counts ''song_id'' ''song_id'' ''play_count'' ref_df =
        Inr \<lparr>columns = ''song_id'' # [''play_count''],
             rows = map (\<lambda>k. (\<lambda>_. VNull)(''song_id'' := k, ''play_count'' := VInt (int (count_key ''song_id'' (rows ref_df) k))))
                        (keys_of ''song_id'' (rows ref_df))\<rparr>"
    using assms(1) by (simp add: value_counts_def require_cols_ok)
  have cz: "norm_key (lr ''song_id'') \<notin> set (keys_of ''song_id'' (rows ref_df))
            \<Longrightarrow> lr ''song_id'' \<noteq> VNull
            \<Longrightarrow> count_key ''song_id'' (rows ref_df) (norm_key (lr ''song_id'')) = 0" for lr
    by (auto simp: keys_of_mem count_key_def filter_empty_conv)
  show ?thesis
    unfolding generate_play_count_def vc bindE_Inr
    apply (subst merge_left_keyed)
    using assms apply (simp_all add: fillna_def require_cols_ok)
    apply (auto simp: fun_eq_iff cz keys_of_mem)
    done
qed

lemma drop_duplicates_subset: "set (drop_duplicates key rs) \<subseteq> set rs"
  by (induction key rs rule: drop_duplicates.induct) auto

lemma drop_duplicates_distinct: "distinct (map (\<lambda>r. norm_key (r key)) (drop_duplicates key rs))"
proof (induction key rs rule: drop_duplicates.induct)
  case (1 key)
  then show ?case by simp
next
  case (2 key r rs)
  have "norm_key (r key) \<notin> (\<lambda>r. norm_key (r key)) ` set (drop_duplicates key (filter (\<lambda>r'. norm_key (r' key) \<noteq> norm_key (r key)) rs))"
    using drop_duplicates_subset[of key "filter (\<lambda>r'. norm_key (r' key) \<noteq> norm_key (r key)) rs"] by auto
  with 2 show ?case by simp
qed

lemma find_filter_imp: "(\<And>x. P x \<Longrightarrow> Q x) \<Longrightarrow> find P (filter Q xs) = find P xs"
  by (induction xs) auto

lemma find_drop_duplicates:
  "find (\<lambda>r. norm_key (r key) = s) (drop_duplicates key rs) = find (\<lambda>r. norm_key (r key) = s) rs"
proof (induction key rs rule: drop_duplicates.induct)
  case (1 key)
  then show ?case by simp
next
  case (2 key r rs)
  show ?case
  proof (cases "norm_key (r key) = s")
    case True
    then show ?thesis by simp
  next
    case False
    have "find (\<lambda>r. norm_key (r key) = s) (filter (\<lambda>r'. norm_key (r' key) \<noteq> norm_key (r key)) rs)
          = find (\<lambda>r. norm_key (r key) = s) rs"
      using False by (intro find_filter_imp) auto
    with 2 False show ?thesis by simp
  qed
qed

lemma drop_duplicates_map:
  "\<forall>r. g r key = r key \<Longrightarrow> drop_duplicates key (map g rs) = map g (drop_duplicates key rs)"
proof (induction key rs rule: drop_duplicates.induct)
  case (1 key)
  then show ?case by simp
next
  case (2 key r rs)
  then show ?case by (simp add: filter_map o_def)
qed

lemma find_distinct_key:
  "distinct (map f xs) \<Longrightarrow> r \<in> set xs \<Longrightarrow> find (\<lambda>x. f x = f r) xs = Some r"
  by (induction xs) (auto simp: image_iff)

lemma length_filter_card: "distinct xs \<Longrightarrow> length (filter P xs) = card {x \<in> set xs. P x}"
  by (metis distinct_filter distinct_card set_filter)

lemma find_None_iff_key: "find (\<lambda>r. f r = s) rs = None \<longleftrightarrow> s \<notin> f ` set rs"
  by (auto simp: find_None_iff)

lemma dedup_count:
  "length (filter (\<lambda>r. norm_key (r ''artist_name'') = k \<and> r ''song_id'' \<noteq> VNull)
             (drop_duplicates ''song_id'' (rows ref_df)))
   = distinct_tracks ref_df k"
proof -
  define f where "f = (\<lambda>r::row. norm_key (r ''song_id''))"
  define rs where "rs = rows ref_df"
  define dd where "dd = drop_duplicates ''song_id'' rs"
  let ?Q = "\<lambda>r::row. norm_key (r ''artist_name'') = k \<and> r ''song_id'' \<noteq> VNull"
  let ?Q' = "\<lambda>s. s \<noteq> VNull \<and> map_option (\<lambda>r. norm_key (r ''artist_name'')) (find (\<lambda>r. f r = s) rs) = Some k"
  have dist: "distinct (map f dd)"
    unfolding f_def dd_def by (rule drop_duplicates_distinct)
  have fnd: "find (\<lambda>r. f r = s) dd = find (\<lambda>r. f r = s) rs" for s
    unfolding f_def dd_def by (rule find_drop_duplicates)
  have Qeq: "?Q' (f r) = ?Q r" if "r \<in> set dd" for r
  proof -
    have "find (\<lambda>x. f x = f r) rs = Some r"
      using find_distinct_key[OF dist that] fnd[of "f r"] by simp
    then show ?thesis by (auto simp: f_def)
  qed
  have "length (filter ?Q dd) = length (filter ?Q' (map f dd))"
    using Qeq by (simp add: filter_map o_def cong: filter_cong)
  also have "\<dots> = card {s \<in> set (map f dd). ?Q' s}"
    using dist by (rule length_filter_card)
  also have "{s \<in> set (map f dd). ?Q' s} = {s \<in> set (keys_of ''song_id'' rs). ?Q' s}"
  proof -
    have "s \<in> f ` set dd \<longleftrightarrow> s \<in> f ` set rs" for s
      using fnd[of s] find_None_iff_key[of f s dd] find_None_iff_key[of f s rs] by auto
    then show ?thesis
      by (auto simp: keys_of_mem f_def)
  qed
  also have "card \<dots> = length (filter ?Q' (keys_of ''song_id'' rs))"
    by (rule length_filter_card[symmetric]) simp
  also have "\<dots> = distinct_tracks ref_df k"
    unfolding distinct_tracks_def attributed_artist_def rs_def[symmetric]
    by (auto simp: f_def keys_of_mem intro!: arg_cong[where f=length] filter_cong)
  finally show ?thesis by (simp add: dd_def rs_def)
qed

lemma select_cols_ok:
  "set cs \<subseteq> set (columns t) \<Longrightarrow>
   select_cols cs t = Inr \<lparr>columns = cs, rows = map (\<lambda>r c. if c \<in> set cs then r c else VNull) (rows t)\<rparr>"
  by (simp add: select_cols_def require_cols_ok)

lemma keys_of_map: "\<forall>r. g r c = r c \<Longrightarrow> keys_of c (map g rs) = keys_of c rs"
  by (simp add: keys_of_def o_def)

lemma generate_track_count_eq:
  assumes ref: "''song_id'' \<in> set (columns ref_df)" "''artist_name'' \<in> set (columns ref_df)"
    and df: "''artist_name'' \<in> set (columns df)" "''target'' \<in> set (columns df)"
    and num: "is_numeric_col ''target'' df"
    and new: "''track_count'' \<notin> set (columns df)"
  shows "generate_track_count ref_df df =
         Inr \<lparr>columns = columns df @ [''track_count''],
              rows = map (\<lambda>lr. (\<lambda>cn. if cn \<in> set (columns df) then lr cn else VNull)
                             (''track_count'' := VInt (if lr ''artist_name'' = VNull then 0
                                else int (distinct_tracks ref_df (norm_key (lr ''artist_name''))))))
                        (rows df)\<rparr>"
proof -
  define g :: "row \<Rightarrow> row" where "g = (\<lambda>r c. if c \<in> set [''song_id'', ''artist_name''] then r c else VNull)"
  define dd where "dd = drop_duplicates ''song_id'' (rows ref_df)"
  define tc where "tc = (\<lambda>k. length (filter (\<lambda>r. norm_key (r ''artist_name'') = k \<and> r ''song_id'' \<noteq> VNull) dd))"
  define mk1 :: "cell \<Rightarrow> row" where "mk1 = (\<lambda>k. (\<lambda>_. VNull)(''artist_name'' := k, ''track_count'' := VInt (int (tc k))))"
  define h :: "row \<Rightarrow> row" where "h = (\<lambda>r c. if c \<in> set [''artist_name'', ''target''] then r c else VNull)"
  define mk2 :: "cell \<Rightarrow> row" where "mk2 = (\<lambda>k. (\<lambda>_. VNull)
                               (''artist_name'' := k,
                                ''replay_pb'' := mean_cell (group_values ''artist_name'' ''target'' (map h (rows df)) k),
                                ''play_count'' := VInt (int (length (group_values ''artist_name'' ''target'' (map h (rows df)) k)))))"
  have tc_eq: "tc k = distinct_tracks ref_df k" for k
    using dedup_count[of k ref_df] by (simp add: tc_def dd_def)
  have sel: "select_cols [''song_id'', ''artist_name''] ref_df = Inr \<lparr>columns = [''song_id'', ''artist_name''], rows = map g (rows ref_df)\<rparr>"
    using ref by (simp add: select_cols_ok g_def)
  have ddg: "drop_duplicates ''song_id'' (map g (rows ref_df)) = map g dd"
    unfolding dd_def by (rule drop_duplicates_map) (simp add: g_def)
  have tcdf: "group_count ''artist_name'' ''song_id'' ''track_count''
                \<lparr>columns = [''song_id'', ''artist_name''], rows = map g dd\<rparr>
              = \<lparr>columns = ''artist_name'' # [''track_count''], rows = map mk1 (keys_of ''artist_name'' dd)\<rparr>"
    by (simp add: group_count_def keys_of_map mk1_def tc_def filter_map o_def g_def)
  have own: "select_cols [''artist_name'', ''target''] df = Inr \<lparr>columns = [''artist_name'', ''target''], rows = map h (rows df)\<rparr>"
    using df by (simp add: select_cols_ok h_def)
  have numh: "is_numeric_col ''target'' \<lparr>columns = [''artist_name'', ''target''], rows = map h (rows df)\<rparr>"
    using num by (simp add: is_numeric_col_def h_def)
  have acdf: "group_mean_count ''artist_name'' ''target'' ''replay_pb'' ''play_count''
                \<lparr>columns = [''artist_name'', ''target''], rows = map h (rows df)\<rparr>
              = Inr \<lparr>columns = [''artist_name'', ''replay_pb'', ''play_count''],
                     rows = map mk2 (keys_of ''artist_name'' (rows df))\<rparr>"
    using numh by (simp add: group_mean_count_def require_cols_ok mk2_def keys_of_map h_def)
  define mk3 :: "cell \<Rightarrow> row" where "mk3 = (\<lambda>k. (\<lambda>_. VNull)(''artist_name'' := k,
       ''track_count'' := (if k \<in> set (keys_of ''artist_name'' dd) then VInt (int (tc k)) else VNull)))"
  have m1: "merge_left ''artist_name''
              \<lparr>columns = [''artist_name'', ''replay_pb'', ''play_count''], rows = map mk2 (keys_of ''artist_name'' (rows df))\<rparr>
              \<lparr>columns = ''artist_name'' # [''track_count''], rows = map mk1 (keys_of ''artist_name'' dd)\<rparr>
            = Inr \<lparr>columns = [''artist_name'', ''replay_pb'', ''play_count'', ''track_count''],
                   rows = map (\<lambda>lr cn. if cn \<in> set [''artist_name'', ''replay_pb'', ''play_count''] then lr cn
                                  else if cn \<in> set [''track_count''] \<and> norm_key (lr ''artist_name'') \<in> set (keys_of ''artist_name'' dd)
                                       then mk1 (norm_key (lr ''artist_name'')) cn else VNull)
                              (map mk2 (keys_of ''artist_name'' (rows df)))\<rparr>"
    by (subst merge_left_keyed) (simp_all add: mk1_def)
  have right: "select_cols [''artist_name'', ''track_count'']
                 \<lparr>columns = [''artist_name'', ''replay_pb'', ''play_count'', ''track_count''],
                   rows = map (\<lambda>lr cn. if cn \<in> set [''artist_name'', ''replay_pb'', ''play_count''] then lr cn
                                  else if cn \<in> set [''track_count''] \<and> norm_key (lr ''artist_name'') \<in> set (keys_of ''artist_name'' dd)
                                       then mk1 (norm_key (lr ''artist_name'')) cn else VNull)
                              (map mk2 (keys_of ''artist_name'' (rows df)))\<rparr>
               = Inr \<lparr>columns = ''artist_name'' # [''track_count''], rows = map mk3 (keys_of ''artist_name'' (rows df))\<rparr>"
    by (auto simp: select_cols_ok mk1_def mk2_def mk3_def fun_eq_iff keys_of_norm)
  have m2: "merge_left ''artist_name'' df
              \<lparr>columns = ''artist_name'' # [''track_count''], rows = map mk3 (keys_of ''artist_name'' (rows df))\<rparr>
            = Inr \<lparr>columns = columns df @ [''track_count''],
                   rows = map (\<lambda>lr cn. if cn \<in> set (columns df) then lr cn
                                  else if cn \<in> set [''track_count''] \<and> norm_key (lr ''artist_name'') \<in> set (keys_of ''artist_name'' (rows df))
                                       then mk3 (norm_key (lr ''artist_name'')) cn else VNull)
                              (rows df)\<rparr>"
    using df new by (subst merge_left_keyed) (simp_all add: mk3_def)
  have tc0: "k \<notin> set (keys_of ''artist_name'' dd) \<Longrightarrow> k \<noteq> VNull \<Longrightarrow> tc k = 0" for k
    by (auto simp: tc_def keys_of_mem filter_empty_conv)
  show ?thesis
    unfolding generate_track_count_def sel bindE_Inr Let_def table.simps ddg tcdf own acdf m1 right m2
    using new by (auto simp: fillna_def require_cols_ok fun_eq_iff mk3_def tc_eq[symmetric] tc0 keys_of_mem)
qed

section \<open>The engineered counts\<close>

lemma ref_play_count_absent:
  "\<forall>r \<in> set (rows ref_df). norm_key (r ''song_id'') \<noteq> norm_key s \<Longrightarrow> ref_play_count ref_df s = 0"
  by (simp add: ref_play_count_def count_key_def filter_empty_conv)

text \<open>
  Claim C7.  When the play-count operation runs (both tables have \<open>song_id\<close>, the target
  has no \<open>play_count\<close> column yet), it returns the target rows in order, unchanged in
  their own columns, and each row's \<open>play_count\<close> is the number of reference rows with
  the same \<open>song_id\<close>: 0 when the \<open>song_id\<close> does not occur in the reference table.
\<close>

theorem play_count_is_reference_count:
  assumes "''song_id'' \<in> set (columns ref_df)"
    and "''song_id'' \<in> set (columns df)"
    and "''play_count'' \<notin> set (columns df)"
  shows "\<exists>out. generate_play_count ref_df df = Inr out \<and>
           columns out = columns df @ [''play_count''] \<and>
           length (rows out) = length (rows df) \<and>
           (\<forall>i < length (rows df).
              (\<forall>c \<in> set (columns df). (rows out ! i) c = (rows df ! i) c) \<and>
              num_of ((rows out ! i) ''play_count'') =
                Some (of_nat (ref_play_count ref_df ((rows df ! i) ''song_id''))) \<and>
              ((\<forall>r \<in> set (rows ref_df). norm_key (r ''song_id'') \<noteq> norm_key ((rows df ! i) ''song_id''))
                 \<longrightarrow> num_of ((rows out ! i) ''play_count'') = Some 0))"
  using assms
  by (auto simp: generate_play_count_eq ref_play_count_def count_key_def filter_empty_conv)

text \<open>The example of the specification: reference keys A, A, B; target keys A and C.\<close>

theorem play_count_witness:
  "\<exists>out. generate_play_count ref0 tgt0 = Inr out \<and>
         num_of ((rows out ! 0) ''play_count'') = Some 2 \<and>
         num_of ((rows out ! 1) ''play_count'') = Some 0"
proof -
  have h: "''song_id'' \<in> set (columns ref0)" "''song_id'' \<in> set (columns tgt0)"
    "''play_count'' \<notin> set (columns tgt0)"
    by (simp_all add: ref0_def tgt0_def)
  from play_count_is_reference_count[OF h] obtain out where
    o: "generate_play_count ref0 tgt0 = Inr out"
    and p: "\<forall>i < length (rows tgt0).
              num_of ((rows out ! i) ''play_count'') =
                Some (of_nat (ref_play_count ref0 ((rows tgt0 ! i) ''song_id'')))"
    by blast
  have "num_of ((rows out ! 0) ''play_count'') = Some 2"
    using p[rule_format, of 0] by (simp add: tgt0_def ref0_def ref_play_count_def count_key_def)
  moreover have "num_of ((rows out ! 1) ''play_count'') = Some 0"
    using p[rule_format, of 1] by (simp add: tgt0_def ref0_def ref_play_count_def count_key_def)
  ultimately show ?thesis using o by blast
qed


lemma select_cols_missing:
  "c \<in> set cs \<Longrightarrow> c \<notin> set (columns t) \<Longrightarrow> \<exists>ms. select_cols cs t = Inl (KeyError ms)"
  using require_cols_missing[of c cs t] by (auto simp: select_cols_def)





section \<open>What a successful merge looks like\<close>

lemma merge_left_Inr:
  "merge_left key l r = Inr out \<Longrightarrow>
     key \<in> set (columns l) \<and> key \<in> set (columns r) \<and>
     columns out = map (lname (overlap key l r)) (columns l) @
                   map (rname (overlap key l r)) (right_cols key r) \<and>
     rows out = concat (map (\<lambda>lr.
                         case matches key r lr of
                           [] \<Rightarrow> [join_row (overlap key l r) (columns l) (right_cols key r) lr (\<lambda>_. VNull)]
                         | ms \<Rightarrow> map (join_row (overlap key l r) (columns l) (right_cols key r) lr) ms)
                       (rows l))"
  by (auto simp: merge_left_def bindE_eq_Inr require_cols_Inr Let_def)

lemma fillna_Inr:
  "fillna c v t = Inr out \<Longrightarrow>
     c \<in> set (columns t) \<and> columns out = columns t \<and>
     rows out = map (\<lambda>r. if r c = VNull then r(c := v) else r) (rows t)"
  by (auto simp: fillna_def bindE_eq_Inr require_cols_Inr)

lemma suffix_x_neq: "last c' \<noteq> CHR ''x'' \<Longrightarrow> c' \<noteq> [] \<Longrightarrow> c @ ''_x'' \<noteq> c'"
  by (metis last_appendR last.simps list.distinct(1))

lemma suffix_y_neq: "last c' \<noteq> CHR ''y'' \<Longrightarrow> c' \<noteq> [] \<Longrightarrow> c @ ''_y'' \<noteq> c'"
  by (metis last_appendR last.simps list.distinct(1))

lemma lname_eq_plain: "lname ov c = c' \<Longrightarrow> last c' \<noteq> CHR ''x'' \<Longrightarrow> c' \<noteq> [] \<Longrightarrow> c = c' \<and> c \<notin> set ov"
  using suffix_x_neq[of c' c] by (auto simp: lname_def split: if_splits)

lemma rname_eq_plain: "rname ov c = c' \<Longrightarrow> last c' \<noteq> CHR ''y'' \<Longrightarrow> c' \<noteq> [] \<Longrightarrow> c = c' \<and> c \<notin> set ov"
  using suffix_y_neq[of c' c] by (auto simp: rname_def split: if_splits)

lemma value_counts_Inr:
  "value_counts c key cnt t = Inr out \<Longrightarrow>
     out = \<lparr>columns = [key, cnt],
            rows = map (\<lambda>k. (\<lambda>_. VNull)(key := k, cnt := VInt (int (count_key c (rows t) k))))
                       (keys_of c (rows t))\<rparr>"
  by (auto simp: value_counts_def bindE_eq_Inr)

lemma generate_play_count_target:
  assumes "generate_play_count ref_df df = Inr out" "''target'' \<in> set (columns out)"
  shows "''target'' \<in> set (columns df)"
proof -
  from assms(1) obtain cdf d1 where
    v: "value_counts ''song_id'' ''song_id'' ''play_count'' ref_df = Inr cdf"
    and m: "merge_left ''song_id'' df cdf = Inr d1"
    and f: "fillna ''play_count'' (VInt 0) d1 = Inr out"
    by (auto simp: generate_play_count_def bindE_eq_Inr)
  have rc: "right_cols ''song_id'' cdf = [''play_count'']"
    using value_counts_Inr[OF v] by (simp add: right_cols_def)
  have "columns out = map (lname (overlap ''song_id'' df cdf)) (columns df) @
                      map (rname (overlap ''song_id'' df cdf)) [''play_count'']"
    using merge_left_Inr[OF m] fillna_Inr[OF f] rc by simp
  with assms(2) show ?thesis
    by (auto dest!: lname_eq_plain[OF sym] rname_eq_plain[OF sym])
qed


lemma select_cols_Inr:
  "select_cols cs t = Inr out \<Longrightarrow>
     set cs \<subseteq> set (columns t) \<and>
     out = \<lparr>columns = cs, rows = map (\<lambda>r c. if c \<in> set cs then r c else VNull) (rows t)\<rparr>"
  by (auto simp: select_cols_def bindE_eq_Inr require_cols_Inr)

lemma merge_new_col:
  assumes m: "merge_left key l r = Inr d"
    and r: "c \<in> set (columns r)" "c \<noteq> key"
    and c: "c \<in> set (columns d)" "last c \<noteq> CHR ''x''" "last c \<noteq> CHR ''y''" "c \<noteq> []"
  shows "c \<notin> set (columns l)"
proof
  assume in_l: "c \<in> set (columns l)"
  then have ov: "c \<in> set (overlap key l r)"
    using r by (simp add: overlap_def)
  from merge_left_Inr[OF m] c(1)
  have "c \<in> lname (overlap key l r) ` set (columns l) \<or>
        c \<in> rname (overlap key l r) ` set (right_cols key r)"
    by auto
  then show False
  proof
    assume "c \<in> lname (overlap key l r) ` set (columns l)"
    then obtain c0 where "lname (overlap key l r) c0 = c" by auto
    from lname_eq_plain[OF this c(2) c(4)] ov show False by blast
  next
    assume "c \<in> rname (overlap key l r) ` set (right_cols key r)"
    then obtain c0 where "rname (overlap key l r) c0 = c" by auto
    from rname_eq_plain[OF this c(3) c(4)] ov show False by blast
  qed
qed

lemma generate_play_count_pre:
  assumes "generate_play_count ref_df df = Inr out"
  shows "''song_id'' \<in> set (columns ref_df) \<and> ''song_id'' \<in> set (columns df) \<and>
         ''play_count'' \<notin> set (columns df)"
proof -
  from assms obtain cdf d1 where
    v: "value_counts ''song_id'' ''song_id'' ''play_count'' ref_df = Inr cdf"
    and m: "merge_left ''song_id'' df cdf = Inr d1"
    and f: "fillna ''play_count'' (VInt 0) d1 = Inr out"
    by (auto simp: generate_play_count_def bindE_eq_Inr)
  have "''song_id'' \<in> set (columns ref_df)"
    using v by (auto simp: value_counts_def bindE_eq_Inr require_cols_Inr)
  moreover have "''song_id'' \<in> set (columns df)"
    using merge_left_Inr[OF m] by simp
  moreover have "''play_count'' \<notin> set (columns df)"
    using merge_new_col[OF m, of "''play_count''"] value_counts_Inr[OF v] fillna_Inr[OF f] by simp
  ultimately show ?thesis by simp
qed

lemma group_mean_count_Inr:
  "group_mean_count key val mn cn t = Inr out \<Longrightarrow> is_numeric_col val t"
  by (auto simp: group_mean_count_def bindE_eq_Inr split: if_splits)

lemma generate_track_count_pre:
  assumes "generate_track_count ref_df df = Inr out"
  shows "''song_id'' \<in> set (columns ref_df) \<and> ''artist_name'' \<in> set (columns ref_df) \<and>
         ''artist_name'' \<in> set (columns df) \<and> ''target'' \<in> set (columns df) \<and>
         is_numeric_col ''target'' df \<and> ''track_count'' \<notin> set (columns df)"
proof -
  from assms obtain sel own ac ac1 right d1 where
    s: "select_cols [''song_id'', ''artist_name''] ref_df = Inr sel"
    and o: "select_cols [''artist_name'', ''target''] df = Inr own"
    and g: "group_mean_count ''artist_name'' ''target'' ''replay_pb'' ''play_count'' own = Inr ac"
    and r: "select_cols [''artist_name'', ''track_count''] ac1 = Inr right"
    and m: "merge_left ''artist_name'' df right = Inr d1"
    and f: "fillna ''track_count'' (VInt 0) d1 = Inr out"
    by (auto simp: generate_track_count_def bindE_eq_Inr Let_def)
  have "is_numeric_col ''target'' own"
    using group_mean_count_Inr[OF g] .
  then have "is_numeric_col ''target'' df"
    using select_cols_Inr[OF o] by (simp add: is_numeric_col_def)
  moreover have "''track_count'' \<notin> set (columns df)"
    using merge_new_col[OF m, of "''track_count''"] select_cols_Inr[OF r] fillna_Inr[OF f] by simp
  ultimately show ?thesis
    using select_cols_Inr[OF s] select_cols_Inr[OF o] by simp
qed

lemma generate_cover_lang_eq:
  assumes "''artist_name'' \<in> set (columns ref_df)" "''language'' \<in> set (columns ref_df)"
    "''artist_name'' \<in> set (columns df)" "''cover_lang'' \<notin> set (columns df)"
  shows "\<exists>n. generate_cover_lang ref_df df =
         Inr \<lparr>columns = columns df @ [''cover_lang''],
              rows = map (\<lambda>lr. (\<lambda>cn. if cn \<in> set (columns df) then lr cn else VNull)
                             (''cover_lang'' := VInt (n lr)))
                        (rows df)\<rparr>"
proof -
  define dd where "dd = drop_duplicates2 ''artist_name'' ''language''
      (map (\<lambda>r c. if c \<in> set [''artist_name'', ''language''] then r c else VNull) (rows ref_df))"
  define n where "n = (\<lambda>lr::row. if lr ''artist_name'' = VNull then 0
                          else int (count_key ''artist_name'' dd (norm_key (lr ''artist_name''))))"
  have cz: "norm_key (lr ''artist_name'') \<notin> set (keys_of ''artist_name'' dd)
            \<Longrightarrow> lr ''artist_name'' \<noteq> VNull
            \<Longrightarrow> count_key ''artist_name'' dd (norm_key (lr ''artist_name'')) = 0" for lr
    by (auto simp: keys_of_mem count_key_def filter_empty_conv)
  have "generate_cover_lang ref_df df =
         Inr \<lparr>columns = columns df @ [''cover_lang''],
              rows = map (\<lambda>lr. (\<lambda>cn. if cn \<in> set (columns df) then lr cn else VNull)
                             (''cover_lang'' := VInt (n lr)))
                        (rows df)\<rparr>"
    unfolding generate_cover_lang_def
    using assms
    apply (simp add: select_cols_ok value_counts_def require_cols_ok)
    apply (subst merge_left_keyed[where rc="[''cover_lang'']", simplified])
    apply (simp_all add: fillna_def require_cols_ok)
    apply (auto simp: fun_eq_iff cz[unfolded dd_def, simplified] keys_of_mem n_def dd_def)
    done
  then show ?thesis by blast
qed

lemma generate_cover_lang_pre:
  assumes "generate_cover_lang ref_df df = Inr out"
  shows "''artist_name'' \<in> set (columns ref_df) \<and> ''language'' \<in> set (columns ref_df) \<and>
         ''artist_name'' \<in> set (columns df) \<and> ''cover_lang'' \<notin> set (columns df)"
proof -
  from assms obtain sel cdf d1 where
    s: "select_cols [''artist_name'', ''language''] ref_df = Inr sel"
    and v: "value_counts ''artist_name'' ''artist_name'' ''cover_lang''
              (sel\<lparr>rows := drop_duplicates2 ''artist_name'' ''language'' (rows sel)\<rparr>) = Inr cdf"
    and m: "merge_left ''artist_name'' df cdf = Inr d1"
    and f: "fillna ''cover_lang'' (VInt 0) d1 = Inr out"
    by (auto simp: generate_cover_lang_def bindE_eq_Inr)
  have "''cover_lang'' \<notin> set (columns df)"
    using merge_new_col[OF m, of "''cover_lang''"] value_counts_Inr[OF v] fillna_Inr[OF f] by simp
  then show ?thesis
    using select_cols_Inr[OF s] merge_left_Inr[OF m] by simp
qed

section \<open>Which exceptions an operation can raise\<close>

lemma bindE_eq_Inl: "bindE m f = Inl e \<longleftrightarrow> m = Inl e \<or> (\<exists>x. m = Inr x \<and> f x = Inl e)"
  by (cases m) auto

lemma require_cols_Inl: "require_cols cs t = Inl e \<Longrightarrow> \<exists>ms. e = KeyError ms"
  by (auto simp: require_cols_def Let_def split: if_splits)

lemma require_each_Inl: "require_each cs t = Inl e \<Longrightarrow> \<exists>ms. e = KeyError ms"
  by (induction cs) (auto split: if_splits)

lemma mapE_Inl: "mapE f xs = Inl e \<Longrightarrow> \<exists>x \<in> set xs. f x = Inl e"
  by (induction xs) (auto split: sum.splits)

lemma mapE_Inr: "mapE f xs = Inr ys \<Longrightarrow> length ys = length xs \<and> (\<forall>i < length xs. f (xs ! i) = Inr (ys ! i))"
proof (induction xs arbitrary: ys)
  case Nil
  then show ?case by simp
next
  case (Cons x xs)
  then show ?case
    by (auto split: sum.splits simp: nth_Cons split: nat.splits)
qed

lemma mapE_total: "mapE (\<lambda>x. Inr (g x)) xs = Inr (map g xs)"
  by (induction xs) auto

lemma fillna_Inl: "fillna c v t = Inl e \<Longrightarrow> \<exists>ms. e = KeyError ms"
  by (auto simp: fillna_def bindE_eq_Inl dest: require_cols_Inl)

lemma drop_cols_Inl: "drop_cols cs t = Inl e \<Longrightarrow> \<exists>ms. e = KeyError ms"
  by (auto simp: drop_cols_def bindE_eq_Inl dest: require_cols_Inl)

lemma select_cols_Inl: "select_cols cs t = Inl e \<Longrightarrow> \<exists>ms. e = KeyError ms"
  by (auto simp: select_cols_def bindE_eq_Inl dest: require_cols_Inl)

lemma merge_left_Inl: "merge_left key l r = Inl e \<Longrightarrow> \<exists>ms. e = KeyError ms"
  by (auto simp: merge_left_def bindE_eq_Inl Let_def dest: require_cols_Inl)

lemma value_counts_Inl: "value_counts c key cnt t = Inl e \<Longrightarrow> \<exists>ms. e = KeyError ms"
  by (auto simp: value_counts_def bindE_eq_Inl dest: require_cols_Inl)

lemma group_mean_count_Inl:
  "group_mean_count key val mn cn t = Inl e \<Longrightarrow> (\<exists>ms. e = KeyError ms) \<or> e = DataError"
  by (auto simp: group_mean_count_def bindE_eq_Inl dest: require_cols_Inl split: if_splits)

lemma assign_Inl: "assign c f t = Inl e \<Longrightarrow> \<exists>r \<in> set (rows t). f r = Inl e"
  by (auto simp: assign_def bindE_eq_Inl dest!: mapE_Inl)

lemma apply_col_Inl:
  "apply_col c src f t = Inl e \<Longrightarrow> (\<exists>ms. e = KeyError ms) \<or> (\<exists>v. f v = Inl e)"
  by (auto simp: apply_col_def bindE_eq_Inl dest: require_cols_Inl dest!: assign_Inl)

lemma num_test_Inl: "num_test p v = Inl e \<Longrightarrow> e = TypeError"
  by (auto simp: num_test_def split: cell.splits)

lemma py_int_Inl: "py_int s = Inl e \<Longrightarrow> e = ValueError"
  by (auto simp: py_int_def Let_def split: if_splits option.splits)

lemma TrainTestProcessor_parse_Inl:
  "TrainTestProcessor_parse repr df = Inl e \<Longrightarrow> e \<noteq> DispatchError \<and> e \<noteq> StageOrderError"
  unfolding TrainTestProcessor_parse_def one_hot_encode_source_def
  by (auto simp: bindE_eq_Inl split: if_splits
           dest!: fillna_Inl assign_Inl select_cols_Inl group_mean_count_Inl merge_left_Inl
                  apply_col_Inl drop_cols_Inl num_test_Inl)


lemma SongsProcessor_parse_Inl:
  "SongsProcessor_parse repr df = Inl e \<Longrightarrow> e \<noteq> DispatchError \<and> e \<noteq> StageOrderError"
  unfolding SongsProcessor_parse_def artist_count_def
  by (auto simp: bindE_eq_Inl split: if_splits cell.splits
           dest!: fillna_Inl assign_Inl apply_col_Inl num_test_Inl)

lemma membership_days_Inl:
  "membership_days t = Inl e \<Longrightarrow> e \<noteq> DispatchError \<and> e \<noteq> StageOrderError"
  unfolding membership_days_def days_between_def
  by (auto simp: bindE_eq_Inl split: if_splits cell.splits dest!: require_each_Inl assign_Inl)

lemma MembersProcessor_parse_Inl:
  "MembersProcessor_parse df = Inl e \<Longrightarrow> e \<noteq> DispatchError \<and> e \<noteq> StageOrderError"
  unfolding MembersProcessor_parse_def transform_bd_outliers_def
  by (auto simp: bindE_eq_Inl split: if_splits
           dest!: fillna_Inl membership_days_Inl apply_col_Inl drop_cols_Inl num_test_Inl)

lemma SongExtraProcessor_parse_Inl:
  "SongExtraProcessor_parse df = Inl e \<Longrightarrow> e \<noteq> DispatchError \<and> e \<noteq> StageOrderError"
  unfolding SongExtraProcessor_parse_def transform_isrc_to_year_def one_hot_encode_year_def
  by (auto simp: bindE_eq_Inl split: if_splits cell.splits
           dest!: fillna_Inl apply_col_Inl drop_cols_Inl num_test_Inl py_int_Inl)

lemma generate_play_count_Inl:
  "generate_play_count ref_df df = Inl e \<Longrightarrow> \<exists>ms. e = KeyError ms"
  unfolding generate_play_count_def
  by (auto simp: bindE_eq_Inl dest!: value_counts_Inl merge_left_Inl fillna_Inl)

lemma generate_track_count_Inl:
  "generate_track_count ref_df df = Inl e \<Longrightarrow> (\<exists>ms. e = KeyError ms) \<or> e = DataError"
  unfolding generate_track_count_def Let_def
  by (auto simp: bindE_eq_Inl dest!: select_cols_Inl group_mean_count_Inl merge_left_Inl fillna_Inl)

lemma generate_cover_lang_Inl:
  "generate_cover_lang ref_df df = Inl e \<Longrightarrow> \<exists>ms. e = KeyError ms"
  unfolding generate_cover_lang_def
  by (auto simp: bindE_eq_Inl dest!: select_cols_Inl value_counts_Inl merge_left_Inl fillna_Inl)

lemma EngineeringProcessor_parse_Inl:
  "EngineeringProcessor_parse ref_df df = Inl e \<Longrightarrow> (\<exists>ms. e = KeyError ms) \<or> e = DataError"
  unfolding EngineeringProcessor_parse_def
  by (auto simp: bindE_eq_Inl dest!: generate_play_count_Inl generate_track_count_Inl generate_cover_lang_Inl)

lemma on_table_Inl:
  "on_table parse df = Inl e \<Longrightarrow> e = TypeError \<or> (\<exists>t. parse t = Inl e)"
  by (auto simp: on_table_def split: option.splits)


section \<open>The engineering transform as a whole\<close>

lemma generate_play_count_Inr:
  assumes "generate_play_count ref_df df = Inr out"
  shows "columns out = columns df @ [''play_count''] \<and>
         rows out = map (\<lambda>lr. (\<lambda>cn. if cn \<in> set (columns df) then lr cn else VNull)
                             (''play_count'' := VInt (if lr ''song_id'' = VNull then 0
                                      else int (count_key ''song_id'' (rows ref_df) (norm_key (lr ''song_id''))))))
                        (rows df)"
  using generate_play_count_pre[OF assms] assms by (auto simp: generate_play_count_eq)

lemma generate_track_count_Inr:
  assumes "generate_track_count ref_df df = Inr out"
  shows "columns out = columns df @ [''track_count''] \<and>
         rows out = map (\<lambda>lr. (\<lambda>cn. if cn \<in> set (columns df) then lr cn else VNull)
                             (''track_count'' := VInt (if lr ''artist_name'' = VNull then 0
                                else int (distinct_tracks ref_df (norm_key (lr ''artist_name''))))))
                        (rows df)"
  using generate_track_count_pre[OF assms] assms by (auto simp: generate_track_count_eq)

lemma generate_cover_lang_Inr:
  assumes "generate_cover_lang ref_df df = Inr out"
  shows "\<exists>n. columns out = columns df @ [''cover_lang''] \<and>
         rows out = map (\<lambda>lr. (\<lambda>cn. if cn \<in> set (columns df) then lr cn else VNull)
                             (''cover_lang'' := VInt (n lr)))
                        (rows df)"
proof -
  from generate_cover_lang_pre[OF assms]
  obtain n where "generate_cover_lang ref_df df =
         Inr \<lparr>columns = columns df @ [''cover_lang''],
              rows = map (\<lambda>lr. (\<lambda>cn. if cn \<in> set (columns df) then lr cn else VNull)
                             (''cover_lang'' := VInt (n lr)))
                        (rows df)\<rparr>"
    using generate_cover_lang_eq[of ref_df df] by blast
  with assms show ?thesis by auto
qed

text \<open>A successful engineering transform: three new columns, none of them missing anywhere;
  the rows and the columns of the target are kept as they are.\<close>

lemma EngineeringProcessor_parse_Inr:
  assumes "EngineeringProcessor_parse ref_df df = Inr out"
  shows "columns out = columns df @ [''play_count'', ''track_count'', ''cover_lang''] \<and>
         length (rows out) = length (rows df) \<and>
         (\<forall>i < length (rows df).
            (\<forall>c \<in> set (columns df). (rows out ! i) c = (rows df ! i) c) \<and>
            (rows out ! i) ''play_count'' \<noteq> VNull \<and>
            (rows out ! i) ''track_count'' \<noteq> VNull \<and>
            (rows out ! i) ''cover_lang'' \<noteq> VNull)"
proof -
  from assms obtain d1 d2 where
    p: "generate_play_count ref_df df = Inr d1"
    and t: "generate_track_count ref_df d1 = Inr d2"
    and c: "generate_cover_lang ref_df d2 = Inr out"
    by (auto simp: EngineeringProcessor_parse_def bindE_eq_Inr)
  note P = generate_play_count_Inr[OF p] and Ppre = generate_play_count_pre[OF p]
  note T = generate_track_count_Inr[OF t] and Tpre = generate_track_count_pre[OF t]
  from generate_cover_lang_Inr[OF c] obtain n where
    C: "columns out = columns d2 @ [''cover_lang'']"
       "rows out = map (\<lambda>lr. (\<lambda>cn. if cn \<in> set (columns d2) then lr cn else VNull)
                             (''cover_lang'' := VInt (n lr))) (rows d2)"
    by blast
  note Cpre = generate_cover_lang_pre[OF c]
  have cols: "columns out = columns df @ [''play_count'', ''track_count'', ''cover_lang'']"
    using P T C by simp
  have len: "length (rows out) = length (rows df)"
    using P T C by simp
  have "''play_count'' \<notin> set (columns df)" "''track_count'' \<notin> set (columns df)"
    "''cover_lang'' \<notin> set (columns df)"
    using Ppre Tpre Cpre P T by auto
  then show ?thesis
    using cols len P T C by auto
qed

lemma EngineeringProcessor_parse_ok:
  assumes "''song_id'' \<in> set (columns ref_df)" "''artist_name'' \<in> set (columns ref_df)"
    "''language'' \<in> set (columns ref_df)"
    "''song_id'' \<in> set (columns df)" "''artist_name'' \<in> set (columns df)"
    "''target'' \<in> set (columns df)" "is_numeric_col ''target'' df"
    "''play_count'' \<notin> set (columns df)" "''track_count'' \<notin> set (columns df)"
    "''cover_lang'' \<notin> set (columns df)"
  shows "\<exists>out. EngineeringProcessor_parse ref_df df = Inr out"
proof -
  let ?d1 = "\<lparr>columns = columns df @ [''play_count''],
              rows = map (\<lambda>lr. (\<lambda>cn. if cn \<in> set (columns df) then lr cn else VNull)
                             (''play_count'' := VInt (if lr ''song_id'' = VNull then 0
                                      else int (count_key ''song_id'' (rows ref_df) (norm_key (lr ''song_id''))))))
                        (rows df)\<rparr>"
  have p: "generate_play_count ref_df df = Inr ?d1"
    using assms by (simp add: generate_play_count_eq)
  have num: "is_numeric_col ''target'' ?d1"
    using assms by (auto simp: is_numeric_col_def)
  obtain d2 where t: "generate_track_count ref_df ?d1 = Inr d2"
    and d2: "columns d2 = columns ?d1 @ [''track_count'']"
    using generate_track_count_eq[of ref_df ?d1] assms num by auto
  obtain n where "generate_cover_lang ref_df d2 =
         Inr \<lparr>columns = columns d2 @ [''cover_lang''],
              rows = map (\<lambda>lr. (\<lambda>cn. if cn \<in> set (columns d2) then lr cn else VNull)
                             (''cover_lang'' := VInt (n lr)))
                        (rows d2)\<rparr>"
    using generate_cover_lang_eq[of ref_df d2] assms d2 by auto
  with p t show ?thesis
    by (simp add: EngineeringProcessor_parse_def)
qed

section \<open>Missing values and the target column\<close>

lemma has_null_nth:
  "has_null t \<longleftrightarrow> (\<exists>i < length (rows t). \<exists>c \<in> set (columns t). (rows t ! i) c = VNull)"
  unfolding has_null_def
  by (metis in_set_conv_nth)

lemma engineering_keeps_nulls:
  assumes "EngineeringProcessor_parse ref_df df = Inr out"
  shows "has_null out \<longleftrightarrow> has_null df"
proof -
  note E = EngineeringProcessor_parse_Inr[OF assms]
  show ?thesis
  proof
    assume "has_null out"
    then obtain i c where i: "i < length (rows out)" and c: "c \<in> set (columns out)"
      and n: "(rows out ! i) c = VNull"
      by (auto simp: has_null_nth)
    from i E have i': "i < length (rows df)" by simp
    from c E n i' have "c \<in> set (columns df)" by auto
    with E i' n show "has_null df" by (auto simp: has_null_nth)
  next
    assume "has_null df"
    then obtain i c where "i < length (rows df)" "c \<in> set (columns df)" "(rows df ! i) c = VNull"
      by (auto simp: has_null_nth)
    with E show "has_null out" by (auto simp: has_null_nth)
  qed
qed

lemma TrainTestProcessor_parse_needs_target:
  assumes "''target'' \<notin> set (columns df)"
  shows "\<exists>ms. TrainTestProcessor_parse repr df = Inl (KeyError ms)"
proof -
  have sel: "\<exists>ms. select_cols [''source_merged'', ''target''] d = Inl (KeyError ms)"
    if "''target'' \<notin> set (columns d)" for d
    using that select_cols_missing[of "''target''" "[''source_merged'', ''target'']" d] by simp
  show ?thesis
  proof (cases "fillna ''source_system_tab'' (VStr ''others'') df")
    case (Inl e)
    then show ?thesis using fillna_Inl[OF Inl] by (auto simp: TrainTestProcessor_parse_def)
  next
    case d1: (Inr d1)
    show ?thesis
    proof (cases "fillna ''source_screen_name'' (VStr ''others'') d1")
      case (Inl e)
      then show ?thesis using fillna_Inl[OF Inl] d1 by (auto simp: TrainTestProcessor_parse_def)
    next
      case d2: (Inr d2)
      show ?thesis
      proof (cases "fillna ''source_type'' (VStr ''nan'') d2")
        case (Inl e)
        then show ?thesis using fillna_Inl[OF Inl] d1 d2 by (auto simp: TrainTestProcessor_parse_def)
      next
        case d3: (Inr d3)
        have c3: "columns d3 = columns df"
          using fillna_Inr[OF d1] fillna_Inr[OF d2] fillna_Inr[OF d3] by simp
        let ?d4 = "\<lparr>columns = add_col ''source_merged'' (columns d3),
                    rows = map (\<lambda>r. r(''source_merged'' := source_merged repr r)) (rows d3)\<rparr>"
        have a: "assign ''source_merged'' (\<lambda>r. Inr (source_merged repr r)) d3 = Inr ?d4"
          by (simp add: assign_def mapE_total)
        have "''target'' \<notin> set (columns ?d4)"
          using assms c3 by (simp add: add_col_def)
        from sel[OF this] obtain ms where
          "select_cols [''source_merged'', ''target''] ?d4 = Inl (KeyError ms)" by blast
        then show ?thesis
          using d1 d2 d3 a by (simp add: TrainTestProcessor_parse_def)
      qed
    qed
  qed
qed


section \<open>Row counts of merges and the stage methods\<close>

lemma length_concat_single:
  "(\<And>x. x \<in> set xs \<Longrightarrow> length (f x) = 1) \<Longrightarrow> length (concat (map f xs)) = length xs"
  by (induction xs) auto

lemma length_concat_ge:
  "(\<And>x. x \<in> set xs \<Longrightarrow> 1 \<le> length (f x)) \<Longrightarrow> length xs \<le> length (concat (map f xs))"
proof (induction xs)
  case Nil
  then show ?case by simp
next
  case (Cons x xs)
  have "1 \<le> length (f x)" using Cons.prems by simp
  moreover have "length xs \<le> length (concat (map f xs))" using Cons by simp
  ultimately show ?case by simp
qed

lemma filter_key_distinct_le:
  "distinct (map f xs) \<Longrightarrow> length (filter (\<lambda>x. f x = k) xs) \<le> 1"
  by (induction xs) (auto simp: filter_empty_conv image_iff)

lemma merge_left_length_ge:
  assumes "merge_left key l r = Inr out"
  shows "length (rows l) \<le> length (rows out)"
proof -
  have "1 \<le> length (case matches key r lr of
                [] \<Rightarrow> [join_row ov lc rc lr (\<lambda>_. VNull)]
              | ms \<Rightarrow> map (join_row ov lc rc lr) ms)" for lr ov lc rc
    by (cases "matches key r lr") auto
  then show ?thesis
    using merge_left_Inr[OF assms] by (simp add: length_concat_ge)
qed

lemma merge_left_length_distinct:
  assumes "merge_left key l r = Inr out"
    and "distinct (map (\<lambda>rr. norm_key (rr key)) (rows r))"
  shows "length (rows out) = length (rows l)"
proof -
  have "length (case matches key r lr of
                [] \<Rightarrow> [join_row ov lc rc lr (\<lambda>_. VNull)]
              | ms \<Rightarrow> map (join_row ov lc rc lr) ms) = 1" for lr ov lc rc
    using filter_key_distinct_le[OF assms(2), of "norm_key (lr key)"]
    by (cases "matches key r lr") (auto simp: matches_def)
  then show ?thesis
    using merge_left_Inr[OF assms(1)] by (simp add: length_concat_single)
qed

lemma process_engineering_Inr:
  assumes "process repr df ''engineering'' ref_df = Inr out"
  shows "\<exists>ref t. ref_df = Some ref \<and> df = Some t \<and> EngineeringProcessor_parse ref t = Inr out"
  using assms
  by (auto simp: process_def bindE_eq_Inr split: option.splits)

lemma feature_engineering_Inr:
  assumes "feature_engineering repr s = Inr s'"
  shows "\<exists>tr0 te0 comb tr te.
           train_df s = Some tr0 \<and> test_df s = Some te0 \<and> comb_df s = Some comb \<and>
           EngineeringProcessor_parse tr0 tr0 = Inr tr \<and>
           EngineeringProcessor_parse comb te0 = Inr te \<and>
           s' = s\<lparr>train_df := Some tr, test_df := Some te, state := ENGINEERING_READY\<rparr> \<and>
           PREPROCESS_READY \<le> state s"
  using assms
  by (auto simp: feature_engineering_def bindE_eq_Inr split: if_splits
           dest!: process_engineering_Inr)

lemma pre_process_Inr:
  assumes "pre_process repr s = Inr s'"
  shows "\<exists>train1 test1 members1 songs1 extra1 songs2 train2 test2 train3 test3.
           process repr (train_df s) ''train'' None = Inr train1 \<and>
           process repr (Some train1) ''test'' None = Inr test1 \<and>
           process repr (members_df s) ''members'' None = Inr members1 \<and>
           process repr (songs_df s) ''songs'' None = Inr songs1 \<and>
           process repr (song_extra_info_df s) ''song_extra_info'' None = Inr extra1 \<and>
           merge_left ''song_id'' songs1 extra1 = Inr songs2 \<and>
           merge_left ''song_id'' train1 songs2 = Inr train2 \<and>
           merge_left ''song_id'' test1 songs2 = Inr test2 \<and>
           merge_left ''msno'' train2 members1 = Inr train3 \<and>
           merge_left ''msno'' test2 members1 = Inr test3 \<and>
           s' = s\<lparr>train_df := Some train3, test_df := Some test3, members_df := Some members1,
                  songs_df := Some songs2, song_extra_info_df := Some extra1,
                  comb_df := Some (append_df train3 test3),
                  state := PREPROCESS_READY\<rparr> \<and>
           LOAD_READY \<le> state s"
  using assms
  by (auto simp: pre_process_def bindE_eq_Inr split: if_splits)

lemma run_stages_append:
  "run_stages repr files (xs @ ys) s = bindE (run_stages repr files xs s) (run_stages repr files ys)"
  by (induction xs arbitrary: s) (auto simp: bindE_def split: sum.splits)

text \<open>What the three guards do (the part of the stage machine that holds).\<close>

lemma stage_guards:
  "(state s < LOAD_READY \<longrightarrow> pre_process repr s = Inl StageOrderError) \<and>
   (state s < PREPROCESS_READY \<longrightarrow> feature_engineering repr s = Inl StageOrderError) \<and>
   (load_raw files s = Inr s' \<longrightarrow> state s' = LOAD_READY) \<and>
   (pre_process repr s = Inr s' \<longrightarrow> LOAD_READY \<le> state s \<and> state s' = PREPROCESS_READY) \<and>
   (feature_engineering repr s = Inr s' \<longrightarrow> PREPROCESS_READY \<le> state s \<and> state s' = ENGINEERING_READY)"
  by (auto simp: pre_process_def feature_engineering_def load_raw_def bindE_eq_Inr
           split: if_splits dest!: pre_process_Inr feature_engineering_Inr)

section \<open>The event-table transform: closed form and idempotence\<close>

lemma assign_total:
  "assign c (\<lambda>r. Inr (g r)) t =
     Inr \<lparr>columns = add_col c (columns t), rows = map (\<lambda>r. r(c := g r)) (rows t)\<rparr>"
  by (simp add: assign_def mapE_total)

lemma mapE_cong_Inr: "(\<And>x. x \<in> set xs \<Longrightarrow> f x = Inr (g x)) \<Longrightarrow> mapE f xs = Inr (map g xs)"
  by (induction xs) auto

lemma apply_col_on:
  assumes "src \<in> set (columns t)" "\<And>r. r \<in> set (rows t) \<Longrightarrow> f (r src) = Inr (g (r src))"
  shows "apply_col c src f t =
     Inr \<lparr>columns = add_col c (columns t), rows = map (\<lambda>r. r(c := g (r src))) (rows t)\<rparr>"
proof -
  have "mapE (\<lambda>r. bindE (f (r src)) (\<lambda>v. Inr (r(c := v)))) (rows t)
        = Inr (map (\<lambda>r. r(c := g (r src))) (rows t))"
    by (rule mapE_cong_Inr) (simp add: assms(2))
  then show ?thesis
    using assms(1) by (simp add: apply_col_def assign_def require_cols_ok)
qed

lemma fillna_ok:
  "c \<in> set (columns t) \<Longrightarrow> fillna c v t = Inr (t\<lparr>rows := map (fill_cell c v) (rows t)\<rparr>)"
  by (simp add: fillna_def require_cols_ok fill_cell_def[abs_def])

lemma one_hot_encode_source_mean:
  "one_hot_encode_source (mean_cell xs) = Inr (source_flag (mean_cell xs))"
  by (simp add: one_hot_encode_source_def source_flag_def mean_cell_def num_test_def)

lemma one_hot_encode_source_Null:
  "one_hot_encode_source VNull = Inr (source_flag VNull)"
  by (simp add: one_hot_encode_source_def source_flag_def num_test_def)

lemma group_values_cong:
  "(\<And>x. x \<in> set xs \<Longrightarrow> f x key = g x key \<and> f x val = g x val) \<Longrightarrow>
   group_values key val (map f xs) k = group_values key val (map g xs) k"
  by (induction xs) (auto simp: group_values_def)

lemma filled_event_other:
  "c \<noteq> ''source_system_tab'' \<Longrightarrow> c \<noteq> ''source_screen_name'' \<Longrightarrow> c \<noteq> ''source_type'' \<Longrightarrow>
   filled_event r c = r c"
  by (simp add: filled_event_def fill_cell_def)

lemma set_add_col: "set (add_col c cs) = insert c (set cs)"
  by (auto simp: add_col_def)

lemma TrainTestProcessor_parse_forward:
  assumes pre: "event_pre df"
  shows "TrainTestProcessor_parse repr df =
         (if has_null (transformed_events repr df) then Inl DataIntegrityError
          else Inr (transformed_events repr df))"
proof -
  from pre have cols: "''source_system_tab'' \<in> set (columns df)" "''source_screen_name'' \<in> set (columns df)"
    "''source_type'' \<in> set (columns df)" "''target'' \<in> set (columns df)"
    "''source_replay_pb'' \<notin> set (columns df)" "''source_replay_count'' \<notin> set (columns df)"
    and num: "is_numeric_col ''target'' df"
    by (simp_all add: event_pre_def)
  define d3 where "d3 = df\<lparr>rows := map filled_event (rows df)\<rparr>"
  define d4 where "d4 = \<lparr>columns = add_col ''source_merged'' (columns df),
                         rows = map (keyed_event repr) (rows df)\<rparr>"
  define pair where "pair = \<lparr>columns = [''source_merged'', ''target''],
      rows = map (\<lambda>r c. if c \<in> set [''source_merged'', ''target''] then r c else VNull) (rows d4)\<rparr>"
  define mk :: "cell \<Rightarrow> row" where "mk = (\<lambda>k. (\<lambda>_. VNull)
        (''source_merged'' := k,
         ''source_replay_pb'' := mean_cell (group_values ''source_merged'' ''target'' (rows pair) k),
         ''source_replay_count'' := VInt (int (length (group_values ''source_merged'' ''target'' (rows pair) k)))))"
  define keys where "keys = keys_of ''source_merged'' (rows d4)"
  define d5 where "d5 = \<lparr>columns = columns d4 @ [''source_replay_pb'', ''source_replay_count''],
      rows = map (\<lambda>lr cn. if cn \<in> set (columns d4) then lr cn
                        else if cn \<in> set [''source_replay_pb'', ''source_replay_count''] \<and>
                                norm_key (lr ''source_merged'') \<in> set keys
                             then mk (norm_key (lr ''source_merged'')) cn else VNull) (rows d4)\<rparr>"
  have f1: "fillna ''source_system_tab'' (VStr ''others'') df =
            Inr (df\<lparr>rows := map (fill_cell ''source_system_tab'' (VStr ''others'')) (rows df)\<rparr>)"
    using cols by (simp add: fillna_ok)
  have f2: "fillna ''source_screen_name'' (VStr ''others'')
              (df\<lparr>rows := map (fill_cell ''source_system_tab'' (VStr ''others'')) (rows df)\<rparr>) =
            Inr (df\<lparr>rows := map (fill_cell ''source_screen_name'' (VStr ''others''))
                    (map (fill_cell ''source_system_tab'' (VStr ''others'')) (rows df))\<rparr>)"
    using cols by (simp add: fillna_ok)
  have f3: "fillna ''source_type'' (VStr ''nan'')
              (df\<lparr>rows := map (fill_cell ''source_screen_name'' (VStr ''others''))
                    (map (fill_cell ''source_system_tab'' (VStr ''others'')) (rows df))\<rparr>) = Inr d3"
    using cols by (simp add: fillna_ok d3_def filled_event_def[abs_def] o_def)
  have a4: "assign ''source_merged'' (\<lambda>r. Inr (source_merged repr r)) d3 = Inr d4"
    by (simp add: assign_total d3_def d4_def keyed_event_def[abs_def] o_def)
  have c4: "columns d4 = add_col ''source_merged'' (columns df)"
    by (simp add: d4_def)
  have in4: "''source_merged'' \<in> set (columns d4)" "''target'' \<in> set (columns d4)"
    "''source_replay_pb'' \<notin> set (columns d4)" "''source_replay_count'' \<notin> set (columns d4)"
    "''source_system_tab'' \<in> set (columns d4)" "''source_screen_name'' \<in> set (columns d4)"
    "''source_type'' \<in> set (columns d4)"
    using cols by (simp_all add: c4 add_col_def)
  have s5: "select_cols [''source_merged'', ''target''] d4 = Inr pair"
    using in4 by (simp add: select_cols_ok pair_def)
  have tgt: "keyed_event repr r ''target'' = r ''target''" for r
    by (simp add: keyed_event_def filled_event_other)
  have nump: "is_numeric_col ''target'' pair"
    using num by (simp add: is_numeric_col_def pair_def d4_def tgt)
  have kp: "keys_of ''source_merged'' (rows pair) = keys"
    by (simp add: pair_def keys_def keys_of_map)
  have g6: "group_mean_count ''source_merged'' ''target'' ''source_replay_pb'' ''source_replay_count'' pair
            = Inr \<lparr>columns = ''source_merged'' # [''source_replay_pb'', ''source_replay_count''],
                   rows = map mk (keys_of ''source_merged'' (rows d4))\<rparr>"
    using nump kp by (simp add: group_mean_count_def require_cols_ok pair_def[THEN arg_cong, of columns] mk_def keys_def)
  have m7: "merge_left ''source_merged'' d4
              \<lparr>columns = ''source_merged'' # [''source_replay_pb'', ''source_replay_count''],
                   rows = map mk (keys_of ''source_merged'' (rows d4))\<rparr> = Inr d5"
    unfolding d5_def keys_def
    using in4 by (subst merge_left_keyed) (simp_all add: mk_def)
  define d6 where "d6 = \<lparr>columns = add_col ''1h_source'' (columns d5),
      rows = map (\<lambda>r. r(''1h_source'' := source_flag (r ''source_replay_pb''))) (rows d5)\<rparr>"
  define d7 where "d7 = \<lparr>columns = add_col ''1h_system_tab'' (columns d6),
      rows = map (\<lambda>r. r(''1h_system_tab'' := one_hot_encode_system_tab (r ''source_system_tab''))) (rows d6)\<rparr>"
  define d8 where "d8 = \<lparr>columns = add_col ''1h_screen_name'' (columns d7),
      rows = map (\<lambda>r. r(''1h_screen_name'' := one_hot_encode_screen_name (r ''source_screen_name''))) (rows d7)\<rparr>"
  define d9 where "d9 = \<lparr>columns = add_col ''1h_source_type'' (columns d8),
      rows = map (\<lambda>r. r(''1h_source_type'' := one_hot_encode_source_type (r ''source_type''))) (rows d8)\<rparr>"
  have in5: "''source_replay_pb'' \<in> set (columns d5)" "''source_replay_count'' \<in> set (columns d5)"
    "''source_merged'' \<in> set (columns d5)"
    "''source_system_tab'' \<in> set (columns d5)" "''source_screen_name'' \<in> set (columns d5)"
    "''source_type'' \<in> set (columns d5)"
    using in4 by (simp_all add: d5_def)
  have a8: "apply_col ''1h_source'' ''source_replay_pb'' one_hot_encode_source d5 = Inr d6"
    unfolding d6_def
    using in5(1)
  proof (rule apply_col_on)
    fix r assume "r \<in> set (rows d5)"
    then show "one_hot_encode_source (r ''source_replay_pb'') = Inr (source_flag (r ''source_replay_pb''))"
      using in4 by (auto simp: d5_def mk_def one_hot_encode_source_mean one_hot_encode_source_Null)
  qed
  have a9: "apply_col ''1h_system_tab'' ''source_system_tab'' (\<lambda>x. Inr (one_hot_encode_system_tab x)) d6 = Inr d7"
    unfolding d7_def using in5 by (intro apply_col_on) (simp_all add: d6_def add_col_def)
  have a10: "apply_col ''1h_screen_name'' ''source_screen_name'' (\<lambda>x. Inr (one_hot_encode_screen_name x)) d7 = Inr d8"
    unfolding d8_def using in5 by (intro apply_col_on) (simp_all add: d7_def d6_def add_col_def)
  have a11: "apply_col ''1h_source_type'' ''source_type'' (\<lambda>x. Inr (one_hot_encode_source_type x)) d8 = Inr d9"
    unfolding d9_def using in5 by (intro apply_col_on) (simp_all add: d8_def d7_def d6_def add_col_def)
  have c9: "columns d9 = add_col ''1h_source_type'' (add_col ''1h_screen_name'' (add_col ''1h_system_tab''
          (add_col ''1h_source'' (add_col ''source_merged'' (columns df) @ [''source_replay_pb'', ''source_replay_count'']))))"
    by (simp add: d9_def d8_def d7_def d6_def d5_def c4)
  have in9: "set [''source_merged'', ''source_replay_pb'', ''source_replay_count''] \<subseteq> set (columns d9)"
    using in5 by (simp add: d9_def d8_def d7_def d6_def add_col_def)
  have key_in: "source_merged repr (filled_event x) \<in> set keys" if "x \<in> set (rows df)" for x
    using that by (auto simp: keys_def keys_of_mem d4_def keyed_event_def source_merged_def intro!: bexI[of _ x])
  have gv: "group_values ''source_merged'' ''target'' (rows pair) k
            = group_values ''source_merged'' ''target'' (map (keyed_event repr) (rows df)) k" for k
    unfolding pair_def d4_def table.simps map_map
    by (rule group_values_cong) simp
  have nk: "norm_key (source_merged repr r) = source_merged repr r" for r
    by (simp add: source_merged_def)
  have final: "map (\<lambda>r c. if c \<in> set [''source_merged'', ''source_replay_pb'', ''source_replay_count''] then VNull else r c) (rows d9)
               = map (transformed_event_row repr df) (rows df)"
    unfolding d9_def d8_def d7_def d6_def d5_def d4_def table.simps map_map o_def
    using cols key_in
    by (auto simp: fun_eq_iff transformed_event_row_def set_add_col keyed_event_def nk mk_def gv
                   event_replay_pb_def filled_event_other)
  have d10: "drop_cols [''source_merged'', ''source_replay_pb'', ''source_replay_count''] d9
             = Inr (transformed_events repr df)"
    using in9 final
    by (simp add: drop_cols_def require_cols_ok transformed_events_def transformed_event_columns_def c9
                del: set_simps)
  show ?thesis
    unfolding TrainTestProcessor_parse_def f1 f2 f3 a4 s5 g6 m7 a8 a9 a10 a11 d10 bindE_Inr
    by simp
qed

lemma assign_Inr:
  "assign c f t = Inr out \<Longrightarrow> columns out = add_col c (columns t) \<and> length (rows out) = length (rows t)"
  by (auto simp: assign_def bindE_eq_Inr dest: mapE_Inr)

lemma apply_col_Inr:
  "apply_col c src f t = Inr out \<Longrightarrow>
     src \<in> set (columns t) \<and> columns out = add_col c (columns t) \<and> length (rows out) = length (rows t)"
  by (auto simp: apply_col_def bindE_eq_Inr require_cols_Inr dest: assign_Inr)

lemma drop_cols_Inr:
  "drop_cols cs t = Inr out \<Longrightarrow> set cs \<subseteq> set (columns t)"
  by (auto simp: drop_cols_def bindE_eq_Inr require_cols_Inr)

lemma group_mean_count_columns:
  "group_mean_count key val mn cn t = Inr out \<Longrightarrow> columns out = [key, mn, cn]"
  by (auto simp: group_mean_count_def bindE_eq_Inr split: if_splits)

lemma TrainTestProcessor_parse_pre:
  assumes "TrainTestProcessor_parse repr df = Inr out"
  shows "event_pre df"
proof -
  from assms obtain d1 d2 d3 d4 pair cdf d5 d6 d7 d8 d9 where
    f1: "fillna ''source_system_tab'' (VStr ''others'') df = Inr d1"
    and f2: "fillna ''source_screen_name'' (VStr ''others'') d1 = Inr d2"
    and f3: "fillna ''source_type'' (VStr ''nan'') d2 = Inr d3"
    and a4: "assign ''source_merged'' (\<lambda>r. Inr (source_merged repr r)) d3 = Inr d4"
    and s5: "select_cols [''source_merged'', ''target''] d4 = Inr pair"
    and g6: "group_mean_count ''source_merged'' ''target'' ''source_replay_pb'' ''source_replay_count'' pair = Inr cdf"
    and m7: "merge_left ''source_merged'' d4 cdf = Inr d5"
    and a8: "apply_col ''1h_source'' ''source_replay_pb'' one_hot_encode_source d5 = Inr d6"
    and a9: "apply_col ''1h_system_tab'' ''source_system_tab'' (\<lambda>x. Inr (one_hot_encode_system_tab x)) d6 = Inr d7"
    and a10: "apply_col ''1h_screen_name'' ''source_screen_name'' (\<lambda>x. Inr (one_hot_encode_screen_name x)) d7 = Inr d8"
    and a11: "apply_col ''1h_source_type'' ''source_type'' (\<lambda>x. Inr (one_hot_encode_source_type x)) d8 = Inr d9"
    and d12: "\<exists>d10. drop_cols [''source_merged'', ''source_replay_pb'', ''source_replay_count''] d9 = Inr d10"
    unfolding TrainTestProcessor_parse_def
    by (auto simp: bindE_eq_Inr split: if_splits)
  note F1 = fillna_Inr[OF f1] and F2 = fillna_Inr[OF f2] and F3 = fillna_Inr[OF f3]
  have src: "''source_system_tab'' \<in> set (columns df)" "''source_screen_name'' \<in> set (columns df)"
    "''source_type'' \<in> set (columns df)"
    using F1 F2 F3 by simp_all
  have c3: "columns d3 = columns df" using F1 F2 F3 by simp
  have r3: "rows d3 = map filled_event (rows df)"
    using F1 F2 F3 by (simp add: filled_event_def[abs_def] fill_cell_def[abs_def] o_def)
  have d4: "d4 = \<lparr>columns = add_col ''source_merged'' (columns df),
                  rows = map (keyed_event repr) (rows df)\<rparr>"
    using a4 by (simp add: assign_total c3 r3 keyed_event_def[abs_def] o_def)
  have tgt: "''target'' \<in> set (columns df)"
    using select_cols_Inr[OF s5] by (simp add: d4 set_add_col)
  have "is_numeric_col ''target'' pair"
    using group_mean_count_Inr[OF g6] .
  then have num: "is_numeric_col ''target'' df"
    using select_cols_Inr[OF s5] by (simp add: is_numeric_col_def d4 keyed_event_def filled_event_other)
  have ccdf: "columns cdf = [''source_merged'', ''source_replay_pb'', ''source_replay_count'']"
    using group_mean_count_columns[OF g6] .
  have "''source_replay_pb'' \<in> set (columns d5)"
    using apply_col_Inr[OF a8] by simp
  from merge_new_col[OF m7 _ _ this] ccdf
  have pb: "''source_replay_pb'' \<notin> set (columns df)"
    by (simp add: d4 set_add_col)
  have "''source_replay_count'' \<in> set (columns d9)"
    using d12 drop_cols_Inr by fastforce
  then have "''source_replay_count'' \<in> set (columns d5)"
    using apply_col_Inr[OF a8] apply_col_Inr[OF a9] apply_col_Inr[OF a10] apply_col_Inr[OF a11]
    by (simp add: set_add_col)
  from merge_new_col[OF m7 _ _ this] ccdf
  have cnt: "''source_replay_count'' \<notin> set (columns df)"
    by (simp add: d4 set_add_col)
  show ?thesis
    using src tgt num pb cnt by (simp add: event_pre_def)
qed

lemma TrainTestProcessor_parse_Inr:
  assumes "TrainTestProcessor_parse repr df = Inr out"
  shows "event_pre df \<and> out = transformed_events repr df \<and> \<not> has_null out"
  using TrainTestProcessor_parse_pre[OF assms] assms
  by (auto simp: TrainTestProcessor_parse_forward split: if_splits)

lemma set_transformed_event_columns:
  "set (transformed_event_columns cs) =
     (set cs \<union> {''1h_source'', ''1h_system_tab'', ''1h_screen_name'', ''1h_source_type''})
     - {''source_merged'', ''source_replay_pb'', ''source_replay_count''}"
  by (auto simp: transformed_event_columns_def set_add_col)

lemma add_col_mem: "c \<in> set cs \<Longrightarrow> add_col c cs = cs"
  by (simp add: add_col_def)

lemma add_col_filter_commute:
  "c \<notin> D \<Longrightarrow> filter (\<lambda>x. x \<notin> D) (add_col c cs) = add_col c (filter (\<lambda>x. x \<notin> D) cs)"
  by (auto simp: add_col_def)

lemma transformed_event_columns_idem:
  "transformed_event_columns (transformed_event_columns cs) = transformed_event_columns cs"
proof -
  let ?D = "set [''source_merged'', ''source_replay_pb'', ''source_replay_count'']"
  let ?ys = "transformed_event_columns cs"
  have mem: "''1h_source'' \<in> set ?ys" "''1h_system_tab'' \<in> set ?ys"
    "''1h_screen_name'' \<in> set ?ys" "''1h_source_type'' \<in> set ?ys" "''source_merged'' \<notin> set ?ys"
    by (simp_all add: set_transformed_event_columns)
  have flt: "filter (\<lambda>c. c \<notin> ?D) ?ys = ?ys"
    by (simp add: transformed_event_columns_def)
  have "transformed_event_columns ?ys =
        filter (\<lambda>c. c \<notin> ?D)
          (add_col ''1h_source_type'' (add_col ''1h_screen_name'' (add_col ''1h_system_tab''
             (add_col ''1h_source'' ((?ys @ [''source_merged'']) @ [''source_replay_pb'', ''source_replay_count''])))))"
    using mem(5) by (simp add: transformed_event_columns_def[of ?ys] add_col_def)
  also have "\<dots> = filter (\<lambda>c. c \<notin> ?D) (?ys @ [''source_merged'', ''source_replay_pb'', ''source_replay_count''])"
    using mem by (simp add: add_col_def)
  also have "\<dots> = ?ys"
    using flt by simp
  finally show ?thesis .
qed

lemma filled_event_source:
  "filled_event r ''source_system_tab'' \<noteq> VNull"
  "filled_event r ''source_screen_name'' \<noteq> VNull"
  "filled_event r ''source_type'' \<noteq> VNull"
  by (simp_all add: filled_event_def fill_cell_def)

lemma filled_event_fixed:
  "r ''source_system_tab'' \<noteq> VNull \<Longrightarrow> r ''source_screen_name'' \<noteq> VNull \<Longrightarrow>
   r ''source_type'' \<noteq> VNull \<Longrightarrow> filled_event r = r"
  by (simp add: filled_event_def fill_cell_def)

lemma source_merged_cong:
  "r ''source_system_tab'' = r' ''source_system_tab'' \<Longrightarrow>
   r ''source_screen_name'' = r' ''source_screen_name'' \<Longrightarrow>
   r ''source_type'' = r' ''source_type'' \<Longrightarrow> source_merged repr r = source_merged repr r'"
  by (simp add: source_merged_def)

lemma transformed_events_idem:
  assumes pre: "event_pre df"
  shows "event_pre (transformed_events repr df) \<and>
         transformed_events repr (transformed_events repr df) = transformed_events repr df"
proof -
  let ?y = "transformed_events repr df"
  let ?t = "transformed_event_row repr df"
  from pre have cols: "''source_system_tab'' \<in> set (columns df)" "''source_screen_name'' \<in> set (columns df)"
    "''source_type'' \<in> set (columns df)" "''target'' \<in> set (columns df)"
    and num: "is_numeric_col ''target'' df"
    by (simp_all add: event_pre_def)
  have src: "?t x ''source_system_tab'' = filled_event x ''source_system_tab''"
    "?t x ''source_screen_name'' = filled_event x ''source_screen_name''"
    "?t x ''source_type'' = filled_event x ''source_type''"
    "?t x ''target'' = x ''target''" for x
    using cols by (simp_all add: transformed_event_row_def filled_event_other)
  have fx: "filled_event (?t x) = ?t x" for x
    by (rule filled_event_fixed) (simp_all add: src filled_event_source)
  have sm: "source_merged repr (?t x) = source_merged repr (filled_event x)" for x
    by (rule source_merged_cong) (simp_all add: src)
  have pre_y: "event_pre ?y"
    using cols num
    by (simp add: event_pre_def transformed_events_def set_transformed_event_columns
                  is_numeric_col_def src)
  have gv: "group_values ''source_merged'' ''target'' (map (keyed_event repr) (map ?t (rows df))) k
            = group_values ''source_merged'' ''target'' (map (keyed_event repr) (rows df)) k" for k
    unfolding map_map o_def
    by (rule group_values_cong) (simp add: keyed_event_def fx sm src filled_event_other)
  have pb: "event_replay_pb repr ?y (?t x) = event_replay_pb repr df x" for x
    using gv by (simp add: event_replay_pb_def transformed_events_def fx sm o_def)
  have row: "transformed_event_row repr ?y (?t x) = ?t x" for x
    apply (rule ext)
    apply (simp add: transformed_event_row_def[of repr ?y] fx pb src)
    apply (auto simp: transformed_event_row_def transformed_events_def set_transformed_event_columns)
    done
  have "map (transformed_event_row repr ?y) (map ?t (rows df)) = map ?t (rows df)"
    by (simp add: row)
  then have "transformed_events repr ?y = ?y"
    unfolding transformed_events_def[of repr ?y]
    by (simp add: transformed_events_def transformed_event_columns_idem)
  with pre_y show ?thesis by simp
qed

lemma TrainTestProcessor_parse_idem:
  assumes "TrainTestProcessor_parse repr df = Inr out"
  shows "TrainTestProcessor_parse repr out = Inr out"
proof -
  from TrainTestProcessor_parse_Inr[OF assms]
  have pre: "event_pre df" and out: "out = transformed_events repr df" and nn: "\<not> has_null out"
    by blast+
  from transformed_events_idem[OF pre, of repr] out
  have "event_pre out" "transformed_events repr out = out" by simp_all
  then show ?thesis
    using nn by (simp add: TrainTestProcessor_parse_forward)
qed

section \<open>The test table after \<open>pre_process\<close>\<close>

lemma pre_process_test_is_train:
  assumes "pre_process repr s = Inr s'"
  shows "\<exists>train0 train1 songs2 members1 test2 test3.
           train_df s = Some train0 \<and> TrainTestProcessor_parse repr train0 = Inr train1 \<and>
           songs_df s' = Some songs2 \<and> members_df s' = Some members1 \<and>
           merge_left ''song_id'' train1 songs2 = Inr test2 \<and>
           merge_left ''msno'' test2 members1 = Inr test3 \<and>
           test_df s' = Some test3 \<and> train_df s' = Some test3 \<and>
           comb_df s' = Some (append_df test3 test3) \<and> state s' = PREPROCESS_READY"
proof -
  from pre_process_Inr[OF assms] obtain train1 test1 members1 songs1 extra1 songs2 train2 test2 train3 test3
    where p1: "process repr (train_df s) ''train'' None = Inr train1"
      and p2: "process repr (Some train1) ''test'' None = Inr test1"
      and m2: "merge_left ''song_id'' train1 songs2 = Inr train2"
      and m3: "merge_left ''song_id'' test1 songs2 = Inr test2"
      and m4: "merge_left ''msno'' train2 members1 = Inr train3"
      and m5: "merge_left ''msno'' test2 members1 = Inr test3"
      and s': "s' = s\<lparr>train_df := Some train3, test_df := Some test3, members_df := Some members1,
                  songs_df := Some songs2, song_extra_info_df := Some extra1,
                  comb_df := Some (append_df train3 test3),
                  state := PREPROCESS_READY\<rparr>"
    by blast
  from p1 obtain train0 where t0: "train_df s = Some train0"
    and t1: "TrainTestProcessor_parse repr train0 = Inr train1"
    by (auto simp: process_def on_table_def split: option.splits)
  from p2 have "TrainTestProcessor_parse repr train1 = Inr test1"
    by (simp add: process_def on_table_def)
  with TrainTestProcessor_parse_idem[OF t1] have "test1 = train1" by simp
  with m2 m3 m4 m5 have "test2 = train2" "test3 = train3" by simp_all
  with t0 t1 m2 m4 s' show ?thesis by simp
qed

lemma pre_process_ignores_test:
  "pre_process repr (s\<lparr>test_df := x\<rparr>) = pre_process repr s"
  by (simp add: pre_process_def bindE_def split: sum.splits)

end
